theory Spec2Isabelle
  imports Complex_Main
begin

section \<open>Text\<close>

text \<open>
  A Python \<open>str\<close> is modelled by a \<open>string\<close>: the list of its bytes in UTF-8. On ASCII
  text, which is what the markers, prefixes and selectors of the repository are made of,
  a byte is a character and the operations below are Python's.
\<close>

definition py_isspace :: "char \<Rightarrow> bool" where
  \<comment> \<open>the ASCII characters for which \<open>str.isspace\<close> holds: tab, line feed, vertical tab,
      form feed, carriage return, the four separators 0x1C..0x1F and the space\<close>
  "py_isspace c = (of_char c \<in> {9, 10, 11, 12, 13, 28, 29, 30, 31, 32 :: nat})"

definition lstrip :: "string \<Rightarrow> string" where
  "lstrip s = dropWhile py_isspace s"

definition rstrip :: "string \<Rightarrow> string" where
  "rstrip s = rev (dropWhile py_isspace (rev s))"

definition strip :: "string \<Rightarrow> string" where
  \<comment> \<open>\<open>s.strip()\<close>\<close>
  "strip s = rstrip (lstrip s)"

definition startswith :: "string \<Rightarrow> string \<Rightarrow> bool" where
  \<comment> \<open>\<open>s.startswith(p)\<close>\<close>
  "startswith s p = (take (length p) s = p)"

fun isin :: "string \<Rightarrow> string \<Rightarrow> bool" where
  \<comment> \<open>\<open>p in s\<close>: \<open>p\<close> occurs in \<open>s\<close> as a substring\<close>
  "isin p [] = (p = [])"
| "isin p (c # s) = (startswith (c # s) p \<or> isin p s)"

definition lower_char :: "char \<Rightarrow> char" where
  "lower_char c = (if 65 \<le> (of_char c :: nat) \<and> (of_char c :: nat) \<le> 90
                   then char_of (of_char c + (32 :: nat)) else c)"

definition lower :: "string \<Rightarrow> string" where
  \<comment> \<open>\<open>s.lower()\<close>\<close>
  "lower s = map lower_char s"

section \<open>Search results\<close>

text \<open>
  A result is the dictionary \<open>{'title': ..., 'url': ..., 'snippet': ...}\<close> that every
  extractor appends. The browser extractor stores \<open>None\<close> as snippet when the
  container has no snippet element.
\<close>

record search_result =
  title :: string
  url :: string
  snippet :: "string option"

section \<open>The result cache and the search endpoint of \<open>flask_app.py\<close>\<close>

text \<open>
  \<open>CACHE\<close> is a dictionary from the query to the pair of the result list and the time
  it was stored. \<open>time.time()\<close> is a parameter of each operation; seconds are reals.
\<close>

type_synonym cache = "string \<rightharpoonup> (search_result list \<times> real)"

definition CACHE_TTL_SECONDS :: real where
  "CACHE_TTL_SECONDS = 10 * 60"

definition get_cached :: "cache \<Rightarrow> real \<Rightarrow> string \<Rightarrow> search_result list option \<times> cache" where
  \<comment> \<open>the stored pair is a non-empty tuple, hence true for \<open>if not entry\<close>; an expired
      entry is popped\<close>
  "get_cached c now query =
     (case c query of
        None \<Rightarrow> (None, c)
      | Some (results, ts) \<Rightarrow>
          if now - ts \<le> CACHE_TTL_SECONDS then (Some results, c)
          else (None, c(query := None)))"

definition set_cache :: "cache \<Rightarrow> real \<Rightarrow> string \<Rightarrow> search_result list \<Rightarrow> cache" where
  "set_cache c now query results =
     (if results = [] then c else c(query \<mapsto> (results, now)))"

text \<open>
  One call of the endpoint sees two readings of the clock (in \<open>get_cached\<close> and, after the
  retrieval, in \<open>set_cache\<close>) and what \<open>fetch_google_results\<close> returns for the query
  at that moment.
\<close>

record call_env =
  now_get :: real
  fetched :: "search_result list"
  now_set :: real

record flask_response =
  status :: nat
  body :: "search_result list"

definition jsonify :: "search_result list \<Rightarrow> flask_response" where
  \<comment> \<open>a view that returns \<open>jsonify(x)\<close> alone answers with status 200\<close>
  "jsonify rs = \<lparr>status = 200, body = rs\<rparr>"

definition args_get :: "string option \<Rightarrow> string" where
  \<comment> \<open>\<open>request.args.get("q", "")\<close>\<close>
  "args_get q = (case q of None \<Rightarrow> [] | Some v \<Rightarrow> v)"

definition search :: "cache \<Rightarrow> string option \<Rightarrow> call_env \<Rightarrow> flask_response \<times> cache \<times> bool" where
  \<comment> \<open>the view \<open>search\<close> of \<open>flask_app.py\<close>; the third component tells whether
      \<open>fetch_google_results\<close> was called\<close>
  "search c q env =
     (let query = strip (args_get q) in
      if query = [] then (jsonify [], c, False)
      else
        (case get_cached c (now_get env) query of
           (Some cached, c1) \<Rightarrow> (jsonify cached, c1, False)
         | (None, c1) \<Rightarrow>
             (let results = fetched env
              in (jsonify results, set_cache c1 (now_set env) query results, True))))"

fun serve :: "cache \<Rightarrow> (string option \<times> call_env) list \<Rightarrow> cache" where
  \<comment> \<open>the cache after a sequence of requests\<close>
  "serve c [] = c"
| "serve c ((q, env) # rest) = serve (fst (snd (search c q env))) rest"

definition cache_nonempty :: "cache \<Rightarrow> bool" where
  "cache_nonempty c = (\<forall>q rs ts. c q = Some (rs, ts) \<longrightarrow> rs \<noteq> [])"

section \<open>Exceptions\<close>

text \<open>
  Every exception the handlers of the repository see is an instance of \<open>Exception\<close>;
  the model keeps its class and, where it matters, its message.
\<close>

datatype exn =
    NameError string
  | ValueError string
  | KeyError string
  | RequestException string
  | PlaywrightError string
  | OSError string
  | ImportError string
  | AttributeError string

section \<open>The functions of \<open>urllib.parse\<close> that the extractors call\<close>

definition is_hex :: "char \<Rightarrow> bool" where
  "is_hex c = (c \<in> set ''0123456789abcdefABCDEF'')"

definition hexval :: "char \<Rightarrow> nat" where
  "hexval c =
     (let n = (of_char c :: nat) in
      if 48 \<le> n \<and> n \<le> 57 then n - 48
      else if 97 \<le> n \<and> n \<le> 102 then n - 87
      else n - 55)"

fun unquote :: "string \<Rightarrow> string" where
  \<comment> \<open>\<open>unquote(s)\<close>: every \<open>%XX\<close> with two hexadecimal digits becomes the byte \<open>XX\<close>; a
      \<open>%\<close> that is not followed by two such digits stays. (Python decodes the bytes as
      UTF-8 afterwards, which the byte model of text leaves implicit.)\<close>
  "unquote (c # h1 # h2 # s) =
     (if c = CHR ''%'' \<and> is_hex h1 \<and> is_hex h2
      then char_of (16 * hexval h1 + hexval h2) # unquote s
      else c # unquote (h1 # h2 # s))"
| "unquote s = s"

fun split_on :: "char \<Rightarrow> string \<Rightarrow> string list" where
  \<comment> \<open>\<open>s.split(d)\<close> for a one-character separator\<close>
  "split_on d [] = [[]]"
| "split_on d (c # s) =
     (if c = d then [] # split_on d s
      else (case split_on d s of [] \<Rightarrow> [[c]] | w # ws \<Rightarrow> (c # w) # ws))"

definition plus_to_space :: "string \<Rightarrow> string" where
  \<comment> \<open>\<open>s.replace('+', ' ')\<close>\<close>
  "plus_to_space s = map (\<lambda>c. if c = CHR ''+'' then CHR '' '' else c) s"

definition parse_field :: "string \<Rightarrow> (string \<times> string) option" where
  \<comment> \<open>one \<open>name=value\<close> field of \<open>parse_qsl\<close> with \<open>keep_blank_values=False\<close>: a field
      without \<open>=\<close> or with an empty value is dropped\<close>
  "parse_field nv =
     (if CHR ''='' \<notin> set nv then None
      else
        (let name = takeWhile (\<lambda>c. c \<noteq> CHR ''='') nv;
             val = drop 1 (dropWhile (\<lambda>c. c \<noteq> CHR ''='') nv)
         in if val = [] then None
            else Some (unquote (plus_to_space name), unquote (plus_to_space val))))"

definition parse_qsl :: "string \<Rightarrow> (string \<times> string) list" where
  "parse_qsl qs = List.map_filter parse_field (split_on CHR ''&'' qs)"

definition parse_qs :: "string \<Rightarrow> string \<rightharpoonup> string" where
  \<comment> \<open>\<open>parse_qs(qs)\<close> read at \<open>[name][0]\<close>: the first value given for the name\<close>
  "parse_qs qs = map_of (parse_qsl qs)"

definition scheme_chars :: "char set" where
  "scheme_chars =
     set ''abcdefghijklmnopqrstuvwxyzABCDEFGHIJKLMNOPQRSTUVWXYZ0123456789+-.''"

definition is_ascii_alpha :: "char \<Rightarrow> bool" where
  "is_ascii_alpha c =
     (let n = (of_char c :: nat) in (65 \<le> n \<and> n \<le> 90) \<or> (97 \<le> n \<and> n \<le> 122))"

definition drop_scheme :: "string \<Rightarrow> string" where
  \<comment> \<open>the text after \<open>scheme:\<close> when the URL starts with a scheme, the URL otherwise\<close>
  "drop_scheme u =
     (let pre = takeWhile (\<lambda>c. c \<noteq> CHR '':'') u in
      if CHR '':'' \<in> set u \<and> pre \<noteq> [] \<and> is_ascii_alpha (hd pre) \<and> set pre \<subseteq> scheme_chars
      then drop (length pre + 1) u else u)"

definition query_part :: "string \<Rightarrow> string" where
  \<comment> \<open>the fragment is cut at the first \<open>#\<close>, then the query is what follows the first \<open>?\<close>\<close>
  "query_part u =
     drop 1 (dropWhile (\<lambda>c. c \<noteq> CHR ''?'') (takeWhile (\<lambda>c. c \<noteq> CHR ''#'') u))"

definition urlparse_query :: "(string \<Rightarrow> bool) \<Rightarrow> string \<Rightarrow> exn + string" where
  \<comment> \<open>\<open>urlparse(url).query\<close>. Leading control characters and spaces are stripped, tabs and
      line ends removed. A network location with one bracket but not the other raises
      \<open>ValueError\<close>; the library's further validation of a bracketed host and of a
      non-ASCII network location is the parameter \<open>netloc_ok\<close>.\<close>
  "urlparse_query netloc_ok href =
     (let u0 = dropWhile (\<lambda>c. (of_char c :: nat) \<le> 32) href;
          u1 = filter (\<lambda>c. (of_char c :: nat) \<notin> {9, 10, 13}) u0;
          u2 = drop_scheme u1
      in if take 2 u2 = ''//'' then
           (let delim = (\<lambda>c. c \<in> set ''/?#'');
                netloc = takeWhile (\<lambda>c. \<not> delim c) (drop 2 u2);
                rest = dropWhile (\<lambda>c. \<not> delim c) (drop 2 u2);
                lb = (CHR ''['' \<in> set netloc);
                rb = (CHR '']'' \<in> set netloc);
                plain = (\<forall>c \<in> set netloc. (of_char c :: nat) < 128)
            in if lb \<noteq> rb then Inl (ValueError ''Invalid IPv6 URL'')
               else if (lb \<or> \<not> plain) \<and> \<not> netloc_ok netloc
               then Inl (ValueError ''invalid network location'')
               else Inr (query_part rest))
         else Inr (query_part u2))"

section \<open>Whitespace and marker splitting\<close>

fun split_ws :: "string \<Rightarrow> string \<Rightarrow> string list" where
  \<comment> \<open>the words of the text, the first argument being the word read so far\<close>
  "split_ws w [] = (if w = [] then [] else [w])"
| "split_ws w (c # s) =
     (if py_isspace c then (if w = [] then split_ws [] s else w # split_ws [] s)
      else split_ws (w @ [c]) s)"

definition py_split :: "string \<Rightarrow> string list" where
  \<comment> \<open>\<open>s.split()\<close>\<close>
  "py_split s = split_ws [] s"

fun join :: "string \<Rightarrow> string list \<Rightarrow> string" where
  \<comment> \<open>\<open>sep.join(ws)\<close>\<close>
  "join sep [] = []"
| "join sep [w] = w"
| "join sep (w # v # ws) = w @ sep @ join sep (v # ws)"

fun before_marker :: "string \<Rightarrow> string \<Rightarrow> string" where
  \<comment> \<open>\<open>s.split(m)[0]\<close> for a non-empty marker: the text before its first occurrence\<close>
  "before_marker m [] = []"
| "before_marker m (c # s) = (if startswith (c # s) m then [] else c # before_marker m s)"

section \<open>The browser extractor \<open>fetch_google_results\<close> of \<open>flask_app.py\<close>\<close>

text \<open>
  The Playwright session is the environment. What the function reads from it: whether
  the launch and the navigation succeed, the rendered HTML, and, for every element of
  \<open>page.locator(".result, .web-result").all()\<close>, the text and the \<open>href\<close> of the first
  element matching \<open>h2 a, .result__title, .result__a\<close> and the text of the first element
  matching \<open>.result__snippet, .result__body\<close> (\<open>None\<close> when there is no such element or
  attribute). A container on which a Playwright call raises is \<open>Inl\<close>.
\<close>

record pw_container =
  title_text :: "string option"
  link_href :: "string option"
  snippet_text :: "string option"

record pw_session =
  launch :: "exn option"
  goto :: "exn option"
  content :: "exn + string"
  containers :: "exn + (exn + pw_container) list"

definition blocks :: "string list" where
  "blocks =
     [''Sorry, we are rate limiting requests'',
      ''Please prove you'' @ [CHR 0x27] @ ''re not a robot'',
      ''We have detected unusual traffic'',
      ''CAPTCHA'',
      ''rate limit'',
      ''too many requests'']"

definition block_page :: "string \<Rightarrow> bool" where
  \<comment> \<open>\<open>any(b in html.lower() for b in blocks)\<close>\<close>
  "block_page html = list_ex (\<lambda>b. isin b (lower html)) blocks"

definition extract_target_url :: "(string \<Rightarrow> bool) \<Rightarrow> string \<Rightarrow> string" where
  \<comment> \<open>\<open>_extract_target_url\<close>; an exception inside returns the href\<close>
  "extract_target_url netloc_ok href =
     (if href = [] then []
      else if startswith href ''/url?'' \<or> startswith href ''https://www.google.com/url'' then
        (case urlparse_query netloc_ok href of
           Inl e \<Rightarrow> href
         | Inr query \<Rightarrow> (case parse_qs query ''q'' of None \<Rightarrow> href | Some dest \<Rightarrow> dest))
      else href)"

definition ad_marker :: string where
  "ad_marker = ''Ad Viewing ads is privacy protected by DuckDuckGo''"

definition clean_title :: "string \<Rightarrow> string" where
  "clean_title t =
     (let t1 = join '' '' (py_split t)
      in if isin ad_marker t1 then strip (before_marker ad_marker t1) else t1)"

definition resolve_link :: "(string \<Rightarrow> bool) \<Rightarrow> string \<Rightarrow> exn + string" where
  \<comment> \<open>the URL of an item, from the href of its title element\<close>
  "resolve_link netloc_ok link =
     (if startswith link ''//duckduckgo.com/l/?uddg='' then
        (case urlparse_query netloc_ok link of
           Inl e \<Rightarrow> Inl e
         | Inr query \<Rightarrow>
             (case parse_qs query ''uddg'' of
                Some v \<Rightarrow> Inr (unquote v)
              | None \<Rightarrow> Inr link))
      else Inr (extract_target_url netloc_ok link))"

definition parse_container :: "(string \<Rightarrow> bool) \<Rightarrow> exn + pw_container \<Rightarrow> search_result list" where
  \<comment> \<open>the body of the loop over the containers: the items it appends. An exception is
      caught and the container skipped.\<close>
  "parse_container netloc_ok c =
     (case c of
        Inl e \<Rightarrow> []
      | Inr k \<Rightarrow>
          (case (map_option strip (title_text k), link_href k) of
             (Some t, Some link) \<Rightarrow>
               if t \<noteq> [] \<and> link \<noteq> [] then
                 (case resolve_link netloc_ok link of
                    Inl e \<Rightarrow> []
                  | Inr u \<Rightarrow>
                      [\<lparr>title = clean_title t, url = u,
                        snippet = map_option strip (snippet_text k)\<rparr>])
               else []
           | _ \<Rightarrow> []))"

definition fetch_google_results :: "(string \<Rightarrow> bool) \<Rightarrow> pw_session \<Rightarrow> search_result list" where
  "fetch_google_results netloc_ok s =
     (case launch s of
        Some e \<Rightarrow> []
      | None \<Rightarrow>
          (case goto s of
             Some e \<Rightarrow> []
           | None \<Rightarrow>
               (case content s of
                  Inl e \<Rightarrow> []
                | Inr html \<Rightarrow>
                    if block_page html then []
                    else
                      (case containers s of
                         Inl e \<Rightarrow> []
                       | Inr cs \<Rightarrow> concat (map (parse_container netloc_ok) cs)))))"

section \<open>The search endpoint of \<open>index.py\<close>\<close>




section \<open>Parsed HTML\<close>

text \<open>
  \<open>BeautifulSoup(text, 'html.parser')\<close> is a parameter of the scrapers; the tree it
  returns is a \<open>node\<close>: a text node, or an element with its tag, its attributes and its
  children. The functions below are the queries the scrapers make on the tree.
\<close>

datatype node =
    Text string
  | Elem string "(string \<times> string) list" "node list"

fun descendants :: "node \<Rightarrow> node list" where
  \<comment> \<open>the nodes below a node, in document order\<close>
  "descendants (Text s) = []"
| "descendants (Elem t as cs) = concat (map (\<lambda>c. c # descendants c) cs)"

fun is_tag :: "string \<Rightarrow> node \<Rightarrow> bool" where
  "is_tag t (Text s) = False"
| "is_tag t (Elem t' as cs) = (t' = t)"

fun attr :: "node \<Rightarrow> string \<Rightarrow> string option" where
  "attr (Text s) k = None"
| "attr (Elem t as cs) k = map_of as k"

fun text_of :: "node \<Rightarrow> string option" where
  "text_of (Text s) = Some s"
| "text_of (Elem t as cs) = None"

definition find_all :: "string \<Rightarrow> (node \<Rightarrow> bool) \<Rightarrow> node \<Rightarrow> node list" where
  \<comment> \<open>\<open>n.find_all(tag, ...)\<close>: the descendant elements with the tag that pass the filter\<close>
  "find_all t p n = filter (\<lambda>d. is_tag t d \<and> p d) (descendants n)"

definition class_values :: "node \<Rightarrow> string list" where
  \<comment> \<open>the strings a class filter is tried on: each class of the element, then the classes
      joined by spaces; none when the element has no class attribute\<close>
  "class_values n =
     (case attr n ''class'' of
        None \<Rightarrow> []
      | Some v \<Rightarrow> (let cs = py_split v in cs @ [join '' '' cs]))"

definition has_class :: "string \<Rightarrow> node \<Rightarrow> bool" where
  \<comment> \<open>\<open>class_='c'\<close>\<close>
  "has_class c n = (c \<in> set (class_values n))"

definition class_contains :: "string \<Rightarrow> node \<Rightarrow> bool" where
  \<comment> \<open>\<open>class_=lambda x: x and 'w' in x\<close>\<close>
  "class_contains w n = list_ex (\<lambda>x. x \<noteq> [] \<and> isin w x) (class_values n)"

definition has_href :: "node \<Rightarrow> bool" where
  \<comment> \<open>\<open>href=True\<close>\<close>
  "has_href n = (attr n ''href'' \<noteq> None)"

definition href_of :: "node \<Rightarrow> string" where
  \<comment> \<open>\<open>link['href']\<close> of a link found with \<open>href=True\<close>\<close>
  "href_of n = (case attr n ''href'' of None \<Rightarrow> [] | Some h \<Rightarrow> h)"

definition get_text_strip :: "node \<Rightarrow> string" where
  \<comment> \<open>\<open>n.get_text(strip=True)\<close>: the text nodes below, each stripped, the empty ones
      left out, concatenated\<close>
  "get_text_strip n =
     concat (filter (\<lambda>s. s \<noteq> []) (map strip (List.map_filter text_of (descendants n))))"

definition py_take :: "int \<Rightarrow> 'a list \<Rightarrow> 'a list" where
  \<comment> \<open>the slice \<open>xs[:n]\<close>; a negative \<open>n\<close> counts from the end\<close>
  "py_take n xs = (if 0 \<le> n then take (nat n) xs else take (length xs - nat (- n)) xs)"

section \<open>The HTTP extractor \<open>scrape_ddg_html\<close>\<close>

text \<open>
  The loop over the result containers is the same text in \<open>search_engine.py\<close> and in
  \<open>simple_ddg_scraper.py\<close>, but for the redirect branch: \<open>simple_ddg_scraper.py\<close>
  imports \<open>urllib.parse\<close> there, \<open>search_engine.py\<close> imports only \<open>quote_plus\<close> from
  it, so that the name \<open>urllib\<close> is unbound and the branch raises \<open>NameError\<close>. The
  redirect branch is the parameter \<open>redirect\<close> of the shared loop body.
\<close>

definition outbound :: "node \<Rightarrow> bool" where
  \<comment> \<open>\<open>'duckduckgo.com' not in href and href.startswith('http')\<close>\<close>
  "outbound l = (\<not> isin ''duckduckgo.com'' (href_of l) \<and> startswith (href_of l) ''http'')"

definition main_link :: "node \<Rightarrow> node option" where
  "main_link c = find outbound (find_all ''a'' has_href c)"

definition snippet_candidates :: "node \<Rightarrow> node list" where
  \<comment> \<open>\<open>container.find_all(['div', 'span', 'p'])\<close>\<close>
  "snippet_candidates c =
     filter (\<lambda>d. is_tag ''div'' d \<or> is_tag ''span'' d \<or> is_tag ''p'' d) (descendants c)"

definition find_snippet :: "string \<Rightarrow> node \<Rightarrow> string" where
  "find_snippet t c =
     (case find (\<lambda>x. 50 < length x \<and> x \<noteq> t) (map get_text_strip (snippet_candidates c)) of
        None \<Rightarrow> []
      | Some x \<Rightarrow> x)"

definition extract_container :: "(string \<Rightarrow> exn + string) \<Rightarrow> node \<Rightarrow> exn + search_result option" where
  \<comment> \<open>the body of the loop: \<open>Inr None\<close> is \<open>continue\<close>, \<open>Inl\<close> an exception raised in it\<close>
  "extract_container redirect c =
     (case main_link c of
        None \<Rightarrow> Inr None
      | Some l \<Rightarrow>
          (let t = get_text_strip l in
           if t = [] \<or> length t < 5 then Inr None
           else
             (case (if isin ''/l/?uddg='' (href_of l) then redirect (href_of l)
                    else Inr (href_of l)) of
                Inl e \<Rightarrow> Inl e
              | Inr u \<Rightarrow>
                  if t \<noteq> [] \<and> u \<noteq> []
                  then Inr (Some \<lparr>title = t, url = u, snippet = Some (find_snippet t c)\<rparr>)
                  else Inr None)))"

definition collect :: "('c \<Rightarrow> exn + search_result option) \<Rightarrow> 'c list \<Rightarrow> search_result list" where
  \<comment> \<open>the loop with its handler: a container whose body raises or continues appends
      nothing\<close>
  "collect step cs =
     List.map_filter (\<lambda>c. case step c of Inl e \<Rightarrow> None | Inr r \<Rightarrow> r) cs"

definition redirect_search_engine :: "string \<Rightarrow> exn + string" where
  \<comment> \<open>\<open>search_engine.py\<close>: evaluating \<open>urllib.parse.urlparse\<close> raises\<close>
  "redirect_search_engine u = Inl (NameError ''urllib'')"

definition redirect_simple :: "(string \<Rightarrow> bool) \<Rightarrow> string \<Rightarrow> exn + string" where
  \<comment> \<open>\<open>simple_ddg_scraper.py\<close>\<close>
  "redirect_simple netloc_ok u =
     (case urlparse_query netloc_ok u of
        Inl e \<Rightarrow> Inl e
      | Inr query \<Rightarrow> (case parse_qs query ''uddg'' of Some v \<Rightarrow> Inr (unquote v) | None \<Rightarrow> Inr u))"

definition looks_like_result :: "node \<Rightarrow> bool" where
  \<comment> \<open>the last resort of \<open>search_engine.py\<close>: a div with an outbound link\<close>
  "looks_like_result d = list_ex outbound (find_all ''a'' has_href d)"

definition first_nonempty :: "'a list list \<Rightarrow> 'a list" where
  \<comment> \<open>\<open>a or b or c\<close> on lists: the first that is not empty, the empty list when all are\<close>
  "first_nonempty xss = (case filter (\<lambda>xs. xs \<noteq> []) xss of [] \<Rightarrow> [] | xs # _ \<Rightarrow> xs)"

definition result_containers :: "node \<Rightarrow> node list" where
  \<comment> \<open>\<open>search_engine.py\<close>\<close>
  "result_containers soup =
     (let by_class = first_nonempty
            [find_all ''div'' (has_class ''result'') soup,
             find_all ''div'' (has_class ''web-result'') soup,
             find_all ''div'' (has_class ''result results_links results_links_deep web-result'') soup];
          by_word = (if by_class = [] then find_all ''div'' (class_contains ''result'') soup
                     else by_class)
      in if by_word = [] then filter looks_like_result (find_all ''div'' (\<lambda>d. True) soup)
         else by_word)"

definition bot_detected :: "string \<Rightarrow> bool" where
  "bot_detected t =
     (isin ''bot'' (lower t) \<and> (isin ''challenge'' (lower t) \<or> isin ''anomaly'' (lower t)))"

text \<open>
  What one pass of the loop over the endpoints meets: the outcome of \<open>session.get\<close>
  followed by \<open>raise_for_status\<close>, the outcome of the second request made when the first
  answer is a bot challenge, and the outcome of writing \<open>ddg_debug.html\<close>.
\<close>

record attempt =
  first_get :: "exn + string"
  retry_get :: "exn + string"
  dump :: "exn option"

definition try_endpoint :: "(string \<Rightarrow> node) \<Rightarrow> int \<Rightarrow> attempt \<Rightarrow> search_result list option" where
  \<comment> \<open>one pass: \<open>Some results\<close> is \<open>return results\<close>, \<open>None\<close> is \<open>continue\<close>\<close>
  "try_endpoint parse max_results a =
     (case first_get a of
        Inl e \<Rightarrow> None
      | Inr t1 \<Rightarrow>
          (case (if bot_detected t1 then retry_get a else Inr t1) of
             Inl e \<Rightarrow> None
           | Inr t \<Rightarrow>
               (case dump a of
                  Some e \<Rightarrow> None
                | None \<Rightarrow>
                    if bot_detected t then None
                    else
                      (let results = collect (extract_container redirect_search_engine)
                                       (py_take max_results (result_containers (parse t)))
                       in if 0 < length results then Some results else None))))"

fun first_success :: "('a \<Rightarrow> search_result list option) \<Rightarrow> 'a list \<Rightarrow> search_result list" where
  \<comment> \<open>the loop over the endpoints, and the \<open>return []\<close> after it\<close>
  "first_success f [] = []"
| "first_success f (a # as) = (case f a of Some results \<Rightarrow> results | None \<Rightarrow> first_success f as)"

definition scrape_ddg_html ::
  "(string \<Rightarrow> node) \<Rightarrow> (nat \<Rightarrow> attempt) \<Rightarrow> string \<Rightarrow> int \<Rightarrow> search_result list" where
  \<comment> \<open>\<open>search_engine.scrape_ddg_html(query, max_results)\<close>; \<open>net i\<close> is what the pass for the
      endpoint of index \<open>i\<close> meets\<close>
  "scrape_ddg_html parse net query max_results =
     first_success (try_endpoint parse max_results) (map net [0, 1, 2])"

definition simple_containers :: "node \<Rightarrow> node list" where
  \<comment> \<open>\<open>simple_ddg_scraper.py\<close>\<close>
  "simple_containers soup =
     (let by_class = first_nonempty
            [find_all ''div'' (has_class ''result'') soup,
             find_all ''div'' (has_class ''web-result'') soup,
             find_all ''div'' (has_class ''result results_links results_links_deep web-result'') soup]
      in if by_class = []
         then filter (\<lambda>d. list_ex (\<lambda>l. \<not> isin ''duckduckgo.com'' (href_of l)) (find_all ''a'' has_href d))
                (find_all ''div'' (\<lambda>d. True) soup)
         else by_class)"

record simple_attempt =
  page_get :: "exn + string"
  page_dump :: "exn option"

definition simple_scrape_ddg_html ::
  "(string \<Rightarrow> node) \<Rightarrow> (string \<Rightarrow> bool) \<Rightarrow> simple_attempt \<Rightarrow> string \<Rightarrow> int \<Rightarrow> search_result list" where
  \<comment> \<open>\<open>simple_ddg_scraper.scrape_ddg_html(query, max_results)\<close>\<close>
  "simple_scrape_ddg_html parse netloc_ok a query max_results =
     (case page_get a of
        Inl e \<Rightarrow> []
      | Inr t \<Rightarrow>
          (case page_dump a of
             Some e \<Rightarrow> []
           | None \<Rightarrow>
               collect (extract_container (redirect_simple netloc_ok))
                 (py_take max_results (simple_containers (parse t)))))"

section \<open>\<open>ddg_scraper.py\<close>\<close>

definition css_class :: "string \<Rightarrow> node \<Rightarrow> bool" where
  \<comment> \<open>the CSS selector \<open>.c\<close>\<close>
  "css_class c n = (case attr n ''class'' of None \<Rightarrow> False | Some v \<Rightarrow> c \<in> set (py_split v))"

definition is_elem :: "node \<Rightarrow> bool" where
  "is_elem n = (text_of n = None)"

definition select :: "(node \<Rightarrow> bool) \<Rightarrow> node \<Rightarrow> node list" where
  \<comment> \<open>\<open>soup.select(selector)\<close> for a selector on one element\<close>
  "select p soup = filter (\<lambda>d. is_elem d \<and> p d) (descendants soup)"

definition selectors :: "(node \<Rightarrow> bool) list" where
  "selectors =
     [\<lambda>d. is_tag ''div'' d \<and> attr d ''data-result'' \<noteq> None,
      css_class ''result'',
      css_class ''web-result'',
      css_class ''result--web'',
      \<lambda>d. attr d ''data-result'' \<noteq> None,
      is_tag ''article'']"

definition result_link :: "node \<Rightarrow> bool" where
  \<comment> \<open>the last resort: a link that looks like a result\<close>
  "result_link l =
     (startswith (href_of l) ''http''
      \<and> \<not> startswith (href_of l) ''https://duckduckgo.com''
      \<and> 10 < length (get_text_strip l)
      \<and> \<not> list_ex (\<lambda>w. isin w (lower (get_text_strip l))) [''privacy'', ''settings'', ''about''])"

definition first_of :: "'a list \<Rightarrow> 'a option" where
  \<comment> \<open>\<open>find\<close> is the first element of \<open>find_all\<close>, or \<open>None\<close>\<close>
  "first_of xs = (case xs of [] \<Rightarrow> None | x # _ \<Rightarrow> Some x)"

definition or_else :: "'a option \<Rightarrow> 'a option \<Rightarrow> 'a option" where
  \<comment> \<open>\<open>a or b\<close> on elements: an element is true, \<open>None\<close> is false\<close>
  "or_else a b = (case a of None \<Rightarrow> b | Some x \<Rightarrow> Some x)"

definition title_elem :: "node \<Rightarrow> node option" where
  "title_elem d =
     or_else (first_of (find_all ''h2'' (\<lambda>x. True) d))
       (or_else (first_of (find_all ''a'' (class_contains ''result'') d))
          (first_of (find_all ''a'' (\<lambda>x. True) d)))"

definition snippet_elem :: "node \<Rightarrow> node option" where
  "snippet_elem d =
     or_else (first_of (find_all ''div'' (class_contains ''snippet'') d))
       (first_of (find_all ''span'' (class_contains ''snippet'') d))"

definition read_result :: "node \<Rightarrow> exn + (string \<times> string \<times> string) option" where
  \<comment> \<open>title, link and snippet of a result element; \<open>div['href']\<close> of a link without the
      attribute raises \<open>KeyError\<close>\<close>
  "read_result d =
     (if is_tag ''a'' d then
        (case attr d ''href'' of
           None \<Rightarrow> Inl (KeyError ''href'')
         | Some h \<Rightarrow> Inr (Some (get_text_strip d, h, [])))
      else
        (case title_elem d of
           None \<Rightarrow> Inr None
         | Some e \<Rightarrow>
             Inr (Some (get_text_strip e,
                        (case attr e ''href'' of None \<Rightarrow> [] | Some h \<Rightarrow> h),
                        (case snippet_elem d of None \<Rightarrow> [] | Some s \<Rightarrow> get_text_strip s)))))"

definition clean_link :: "(string \<Rightarrow> bool) \<Rightarrow> string \<Rightarrow> exn + string option" where
  \<comment> \<open>the redirect branch and the relative-link branch; \<open>Inr None\<close> is \<open>continue\<close>\<close>
  "clean_link netloc_ok link =
     (if link \<noteq> [] \<and> startswith link ''/l/?uddg='' then
        (case urlparse_query netloc_ok link of
           Inl e \<Rightarrow> Inl e
         | Inr query \<Rightarrow> Inr (Some (case parse_qs query ''uddg'' of Some v \<Rightarrow> v | None \<Rightarrow> link)))
      else if link \<noteq> [] \<and> \<not> startswith link ''http'' then Inr None
      else Inr (Some link))"

definition requests_step :: "(string \<Rightarrow> bool) \<Rightarrow> node \<Rightarrow> exn + search_result option" where
  \<comment> \<open>the body of the loop over \<open>result_divs[:max_results]\<close>\<close>
  "requests_step netloc_ok d =
     (case read_result d of
        Inl e \<Rightarrow> Inl e
      | Inr None \<Rightarrow> Inr None
      | Inr (Some (t, link, sn)) \<Rightarrow>
          (case clean_link netloc_ok link of
             Inl e \<Rightarrow> Inl e
           | Inr None \<Rightarrow> Inr None
           | Inr (Some l) \<Rightarrow>
               if t \<noteq> [] \<and> l \<noteq> []
               then Inr (Some \<lparr>title = t, url = l, snippet = Some sn\<rparr>)
               else Inr None))"

definition ddg_requests_search ::
  "(string \<Rightarrow> node) \<Rightarrow> (string \<Rightarrow> bool) \<Rightarrow> simple_attempt \<Rightarrow> string \<Rightarrow> int
     \<Rightarrow> exn + search_result list" where
  \<comment> \<open>\<open>_ddg_requests_search\<close>: its handler logs the exception and raises it again\<close>
  "ddg_requests_search parse netloc_ok a query max_results =
     (case page_get a of
        Inl e \<Rightarrow> Inl e
      | Inr t \<Rightarrow>
          (case page_dump a of
             Some e \<Rightarrow> Inl e
           | None \<Rightarrow>
               (let soup = parse t;
                    by_selector = first_nonempty (map (\<lambda>p. select p soup) selectors);
                    result_divs =
                      (if by_selector = []
                       then py_take max_results (filter result_link (find_all ''a'' has_href soup))
                       else by_selector)
                in Inr (collect (requests_step netloc_ok) (py_take max_results result_divs)))))"

definition ddg_html_search :: "string \<Rightarrow> int \<Rightarrow> exn + search_result list" where
  \<comment> \<open>\<open>ddg_scraper.py\<close> calls \<open>_ddg_html_search\<close> and defines no such function, nor does
      any module it imports: the call raises \<open>NameError\<close>\<close>
  "ddg_html_search query max_results = Inl (NameError ''_ddg_html_search'')"

definition ddg_search ::
  "(string \<Rightarrow> node) \<Rightarrow> (string \<Rightarrow> bool) \<Rightarrow> simple_attempt \<Rightarrow> string \<Rightarrow> int
     \<Rightarrow> exn + search_result list" where
  \<comment> \<open>\<open>ddg_search(query, max_results)\<close>: \<open>Inl\<close> is an exception that reaches the caller\<close>
  "ddg_search parse netloc_ok a query max_results =
     (case ddg_html_search query max_results of
        Inr results \<Rightarrow> Inr results
      | Inl e \<Rightarrow> ddg_requests_search parse netloc_ok a query max_results)"

section \<open>The emotion classifier: reading the text\<close>

text \<open>
  The tables of \<open>emotion_classifier.py\<close> are copied as they stand in the file; the
  strings the file calls emojis are written as their bytes.
\<close>

definition positive_emojis :: "string list" where
  "positive_emojis =
     [[CHR 0xC3, CHR 0xB0, CHR 0xC5, CHR 0xB8, CHR 0xCB, CHR 0x9C, CHR 0xE2, CHR 0x80, CHR 0x9A],
      [CHR 0xC3, CHR 0xB0, CHR 0xC5, CHR 0xB8, CHR 0xC2, CHR 0xA4, CHR 0xC2, CHR 0xA3],
      [CHR 0xC3, CHR 0xB0, CHR 0xC5, CHR 0xB8, CHR 0xCB, CHR 0x9C, CHR 0xC5, CHR 0xA0],
      [CHR 0xC3, CHR 0xB0, CHR 0xC5, CHR 0xB8, CHR 0xCB, CHR 0x9C],
      [CHR 0xC3, CHR 0xB0, CHR 0xC5, CHR 0xB8, CHR 0xCB, CHR 0x9C, CHR 0xE2, CHR 0x80, CHR 0x9E],
      [CHR 0xC3, CHR 0xB0, CHR 0xC5, CHR 0xB8, CHR 0xCB, CHR 0x9C, CHR 0xC6, CHR 0x92],
      [CHR 0xC3, CHR 0xB0, CHR 0xC5, CHR 0xB8, CHR 0xCB, CHR 0x9C, CHR 0xE2, CHR 0x82, CHR 0xAC],
      [CHR 0xC3, CHR 0xB0, CHR 0xC5, CHR 0xB8, CHR 0xE2, CHR 0x84, CHR 0xA2, CHR 0xE2, CHR 0x80, CHR 0x9A],
      [CHR 0xC3, CHR 0xA2, CHR 0xC2, CHR 0xA4, CHR 0xC3, CHR 0xAF, CHR 0xC2, CHR 0xB8],
      [CHR 0xC3, CHR 0xB0, CHR 0xC5, CHR 0xB8, CHR 0xCB, CHR 0x9C],
      [CHR 0xC3, CHR 0xB0, CHR 0xC5, CHR 0xB8, CHR 0xC2, CHR 0xA5, CHR 0xC2, CHR 0xB0],
      [CHR 0xC3, CHR 0xB0, CHR 0xC5, CHR 0xB8, CHR 0xCB, CHR 0x9C, CHR 0xCB, CHR 0x9C]]"

definition positive_expressions :: "string list" where
  "positive_expressions =
     [''yay'', ''woohoo'', ''hurray'', ''hooray'', ''can'' @ [CHR 0x27] @ ''t wait'',
      ''looking forward'', ''bring it on'']"

definition negative_emojis :: "string list" where
  "negative_emojis =
     [[CHR 0xC3, CHR 0xB0, CHR 0xC5, CHR 0xB8, CHR 0xCB, CHR 0x9C, CHR 0xC2, CHR 0xA2],
      [CHR 0xC3, CHR 0xB0, CHR 0xC5, CHR 0xB8, CHR 0xCB, CHR 0x9C, CHR 0xC2, CHR 0xAD],
      [CHR 0xC3, CHR 0xB0, CHR 0xC5, CHR 0xB8, CHR 0xCB, CHR 0x9C, CHR 0xE2, CHR 0x80, CHR 0x9D],
      [CHR 0xC3, CHR 0xB0, CHR 0xC5, CHR 0xB8, CHR 0xCB, CHR 0x9C, CHR 0xC5, CHR 0xBE],
      [CHR 0xC3, CHR 0xB0, CHR 0xC5, CHR 0xB8, CHR 0xCB, CHR 0x9C, CHR 0xC2, CHR 0xA1],
      [CHR 0xC3, CHR 0xB0, CHR 0xC5, CHR 0xB8, CHR 0xCB, CHR 0x9C, CHR 0xC2, CHR 0xA4],
      [CHR 0xC3, CHR 0xB0, CHR 0xC5, CHR 0xB8, CHR 0xC2, CHR 0xA4, CHR 0xC2, CHR 0xAC]]"

definition negative_expressions :: "string list" where
  "negative_expressions =
     [''sigh'', ''ugh'', ''argh'', ''grr'', ''damn'', ''hell'']"


definition endswith :: "string \<Rightarrow> string \<Rightarrow> bool" where
  \<comment> \<open>\<open>s.endswith(p)\<close>\<close>
  "endswith s p = startswith (rev s) (rev p)"

fun count_from :: "nat \<Rightarrow> string \<Rightarrow> string \<Rightarrow> nat" where
  \<comment> \<open>the occurrences of a non-empty \<open>p\<close> that do not overlap, the first argument being
      the number of characters still covered by the last occurrence\<close>
  "count_from k p [] = 0"
| "count_from k p (c # s) =
     (if 0 < k then count_from (k - 1) p s
      else if startswith (c # s) p then 1 + count_from (length p - 1) p s
      else count_from 0 p s)"

definition count_sub :: "string \<Rightarrow> string \<Rightarrow> nat" where
  \<comment> \<open>\<open>s.count(p)\<close>\<close>
  "count_sub p s = count_from 0 p s"

definition is_word_char :: "char \<Rightarrow> bool" where
  \<comment> \<open>\<open>\w\<close> on ASCII\<close>
  "is_word_char c =
     (let n = (of_char c :: nat)
      in (48 \<le> n \<and> n \<le> 57) \<or> (65 \<le> n \<and> n \<le> 90) \<or> n = 95 \<or> (97 \<le> n \<and> n \<le> 122))"

definition is_upper :: "char \<Rightarrow> bool" where
  \<comment> \<open>\<open>[A-Z]\<close>\<close>
  "is_upper c = (65 \<le> (of_char c :: nat) \<and> (of_char c :: nat) \<le> 90)"

definition is_lower :: "char \<Rightarrow> bool" where
  \<comment> \<open>\<open>[a-z]\<close>\<close>
  "is_lower c = (97 \<le> (of_char c :: nat) \<and> (of_char c :: nat) \<le> 122)"

fun group_by :: "(char \<Rightarrow> 'k) \<Rightarrow> string \<Rightarrow> string list" where
  \<comment> \<open>the text cut into its maximal runs of characters with the same key\<close>
  "group_by key [] = []"
| "group_by key (c # s) =
     (case group_by key s of
        [] \<Rightarrow> [[c]]
      | r # rs \<Rightarrow> if key (hd r) = key c then (c # r) # rs else [c] # r # rs)"

definition repeated_chars :: "string \<Rightarrow> string list" where
  \<comment> \<open>the matches of \<open>(.)\1{2,}\<close> with \<open>re.IGNORECASE\<close>: the runs of three or more of a
      character other than the line feed, in either case\<close>
  "repeated_chars s = filter (\<lambda>r. 3 \<le> length r \<and> hd r \<noteq> CHR 0x0A) (group_by lower_char s)"

fun repeated_words_in :: "string list \<Rightarrow> string list" where
  \<comment> \<open>on the text cut into words and what separates them: a word, whitespace, the same
      word again; the search goes on after a match\<close>
  "repeated_words_in (w1 # sep # w2 # rest) =
     (if is_word_char (hd w1) \<and> list_all py_isspace sep \<and> lower w1 = lower w2
      then (w1 @ sep @ w2) # repeated_words_in rest
      else repeated_words_in (sep # w2 # rest))"
| "repeated_words_in ws = []"

definition repeated_words :: "string \<Rightarrow> string list" where
  \<comment> \<open>the matches of \<open>\b(\w+)\s+\1\b\<close> with \<open>re.IGNORECASE\<close>\<close>
  "repeated_words s = repeated_words_in (group_by is_word_char s)"

definition caps_words :: "string \<Rightarrow> string list" where
  \<comment> \<open>the matches of \<open>\b[A-Z]{2,}\b\<close>: the words of two or more capital letters\<close>
  "caps_words s = filter (\<lambda>w. 2 \<le> length w \<and> list_all is_upper w) (group_by is_word_char s)"

definition question_runs :: "string \<Rightarrow> string list" where
  \<comment> \<open>the matches of \<open>\?+\<close>\<close>
  "question_runs s = filter (\<lambda>r. hd r = CHR ''?'') (group_by (\<lambda>c. c = CHR ''?'') s)"

section \<open>The emotion classifier: scores\<close>

text \<open>The floating-point numbers of the classifier are reals.\<close>

record scores =
  positive_valence :: real
  negative_valence :: real
  high_arousal :: real
  high_engagement :: real
  neutral_regulation :: real

definition positive_score :: "string \<Rightarrow> real" where
  "positive_score text =
     (\<Sum>e \<leftarrow> positive_emojis. if isin e text then 2.0 * real (count_sub e text) else 0)
     + (\<Sum>x \<leftarrow> positive_expressions. if isin x (lower text) then 1.5 else 0)
     + (if isin ''!!!'' text then 1.2
        else if isin ''!!'' text then 0.8
        else if endswith text ''!'' then 0.5 else 0)"

definition negative_score :: "string \<Rightarrow> real" where
  "negative_score text =
     (\<Sum>e \<leftarrow> negative_emojis. if isin e text then 2.0 * real (count_sub e text) else 0)
     + (\<Sum>x \<leftarrow> negative_expressions. if isin x (lower text) then 1.5 else 0)
     + (if isin ''...'' text then 0.8 else 0)
     + (if endswith text ''...'' then 0.5 else 0)"

definition intensity_score :: "string \<Rightarrow> real" where
  "intensity_score text =
     (\<Sum>m \<leftarrow> repeated_chars text @ repeated_words text. 1.0 + real (length m) * 0.1)
     + real (length (caps_words text)) * 1.5
     + (if isin ''!!'' text then 1.2 else 0)
     + (if isin ''??'' text then 1.0 else 0)
     + (if isin ''...'' text then 0.8 else 0)"

definition engagement_score :: "string \<Rightarrow> real" where
  "engagement_score text =
     real (length (question_runs text)) * 0.8
     + (let word_count = length (py_split text)
        in if 20 < word_count then 2.0
           else if 10 < word_count then 1.0
           else if word_count \<le> 3 then - 0.5 else 0)"

definition calculate_psychological_scores :: "string \<Rightarrow> scores" where
  "calculate_psychological_scores text =
     (let total_activity = positive_score text + negative_score text + intensity_score text
                           + \<bar>engagement_score text\<bar>
      in \<lparr>positive_valence = positive_score text,
          negative_valence = negative_score text,
          high_arousal = intensity_score text,
          high_engagement = engagement_score text,
          neutral_regulation = max 0 (1.0 - total_activity * 0.1)\<rparr>)"

definition determine_psychological_state :: "scores \<Rightarrow> string \<times> real" where
  "determine_psychological_state s =
     (if 2.0 < positive_valence s then
        (if 1.0 < high_arousal s
         then (''high_positive_arousal'', min 0.95 (0.5 + positive_valence s * 0.1))
         else (''positive_valence'', min 0.9 (0.4 + positive_valence s * 0.1)))
      else if 2.0 < negative_valence s then
        (if 1.0 < high_arousal s
         then (''high_negative_arousal'', min 0.95 (0.5 + negative_valence s * 0.1))
         else (''negative_valence'', min 0.9 (0.4 + negative_valence s * 0.1)))
      else if 1.5 < high_arousal s then
        (''high_intensity_state'', min 0.9 (0.3 + high_arousal s * 0.08))
      else if 2.0 < high_engagement s then
        (''high_engagement'', min 0.85 (0.4 + high_engagement s * 0.05))
      else if high_engagement s < - 0.3 then
        (if positive_valence s < 0.5 \<and> high_arousal s < 0.5
         then (''low_engagement_shutdown'', min 0.8 (0.6 + \<bar>high_engagement s\<bar> * 0.2))
         else (''brief_communication'', min 0.7 (0.4 + \<bar>high_engagement s\<bar> * 0.15)))
      else if 0.7 < neutral_regulation s then
        (''neutral_regulation'', neutral_regulation s)
      else if \<bar>positive_valence s - negative_valence s\<bar> < 1.0
              \<and> (1.0 < positive_valence s \<or> 1.0 < negative_valence s) then
        (''mixed_valence'', min 0.75 (0.3 + (positive_valence s + negative_valence s) * 0.05))
      else (''neutral_regulation'', max 0.5 (neutral_regulation s)))"

section \<open>The emotion classifier: emotion percentages\<close>

record emotion_pattern =
  e_name :: string
  e_keywords :: "string list"
  e_emojis :: "string list"
  e_intensifiers :: "string list"
  e_patterns :: "string list"
  e_expressions :: "string list"

definition emotion_patterns :: "emotion_pattern list" where
  "emotion_patterns =
     [\<lparr>e_name = ''joy'',
       e_keywords = [''happy'', ''joy'', ''excited'', ''thrilled'', ''delighted'',
                   ''cheerful'', ''glad'', ''pleased'', ''elated'', ''ecstatic'',
                   ''wonderful'', ''amazing'', ''awesome'', ''fantastic'',
                   ''brilliant'', ''perfect'', ''love'', ''adore'', ''cherish''],
       e_emojis = [[CHR 0xC3, CHR 0xB0, CHR 0xC5, CHR 0xB8, CHR 0xCB, CHR 0x9C, CHR 0xE2, CHR 0x80, CHR 0x9A],
                 [CHR 0xC3, CHR 0xB0, CHR 0xC5, CHR 0xB8, CHR 0xC2, CHR 0xA4, CHR 0xC2, CHR 0xA3],
                 [CHR 0xC3, CHR 0xB0, CHR 0xC5, CHR 0xB8, CHR 0xCB, CHR 0x9C, CHR 0xC5, CHR 0xA0],
                 [CHR 0xC3, CHR 0xB0, CHR 0xC5, CHR 0xB8, CHR 0xCB, CHR 0x9C],
                 [CHR 0xC3, CHR 0xB0, CHR 0xC5, CHR 0xB8, CHR 0xCB, CHR 0x9C, CHR 0xE2, CHR 0x80, CHR 0x9E],
                 [CHR 0xC3, CHR 0xB0, CHR 0xC5, CHR 0xB8, CHR 0xCB, CHR 0x9C, CHR 0xC6, CHR 0x92],
                 [CHR 0xC3, CHR 0xB0, CHR 0xC5, CHR 0xB8, CHR 0xCB, CHR 0x9C, CHR 0xE2, CHR 0x82, CHR 0xAC],
                 [CHR 0xC3, CHR 0xB0, CHR 0xC5, CHR 0xB8, CHR 0xE2, CHR 0x84, CHR 0xA2, CHR 0xE2, CHR 0x80, CHR 0x9A],
                 [CHR 0xC3, CHR 0xB0, CHR 0xC5, CHR 0xB8, CHR 0xCB, CHR 0x9C],
                 [CHR 0xC3, CHR 0xB0, CHR 0xC5, CHR 0xB8, CHR 0xC2, CHR 0xA5, CHR 0xC2, CHR 0xB0],
                 [CHR 0xC3, CHR 0xB0, CHR 0xC5, CHR 0xB8, CHR 0xCB, CHR 0x9C, CHR 0xCB, CHR 0x9C],
                 [CHR 0xC3, CHR 0xA2, CHR 0xC2, CHR 0xA4, CHR 0xC3, CHR 0xAF, CHR 0xC2, CHR 0xB8],
                 [CHR 0xC3, CHR 0xB0, CHR 0xC5, CHR 0xB8, CHR 0xE2, CHR 0x80, CHR 0x99, CHR 0xE2, CHR 0x80, CHR 0xA2],
                 [CHR 0xC3, CHR 0xB0, CHR 0xC5, CHR 0xB8, CHR 0xE2, CHR 0x80, CHR 0x99, CHR 0xE2, CHR 0x80, CHR 0x93],
                 [CHR 0xC3, CHR 0xB0, CHR 0xC5, CHR 0xB8, CHR 0xE2, CHR 0x80, CHR 0x99, CHR 0xE2, CHR 0x80, CHR 0x94],
                 [CHR 0xC3, CHR 0xB0, CHR 0xC5, CHR 0xB8, CHR 0xC5, CHR 0xBD, CHR 0xE2, CHR 0x80, CHR 0xB0],
                 [CHR 0xC3, CHR 0xB0, CHR 0xC5, CHR 0xB8, CHR 0xC5, CHR 0xBD, CHR 0xC5, CHR 0xA0],
                 [CHR 0xC3, CHR 0xA2, CHR 0xC5, CHR 0x93, CHR 0xC2, CHR 0xA8],
                 [CHR 0xC3, CHR 0xB0, CHR 0xC5, CHR 0xB8, CHR 0xE2, CHR 0x80, CHR 0x9D, CHR 0xC2, CHR 0xA5]],
       e_intensifiers = [''so'', ''very'', ''really'', ''extremely'', ''incredibly'',
                       ''absolutely'', ''totally'', ''completely''],
       e_patterns = [],
       e_expressions = []\<rparr>,
      \<lparr>e_name = ''sadness'',
       e_keywords = [''sad'', ''depressed'', ''down'', ''blue'', ''melancholy'',
                   ''sorrowful'', ''grief'', ''heartbroken'', ''devastated'',
                   ''disappointed'', ''regret'', ''lonely'', ''empty'', ''hopeless'',
                   ''despair'', ''cry'', ''tears'', ''miss'', ''lost''],
       e_emojis = [[CHR 0xC3, CHR 0xB0, CHR 0xC5, CHR 0xB8, CHR 0xCB, CHR 0x9C, CHR 0xC2, CHR 0xA2],
                 [CHR 0xC3, CHR 0xB0, CHR 0xC5, CHR 0xB8, CHR 0xCB, CHR 0x9C, CHR 0xC2, CHR 0xAD],
                 [CHR 0xC3, CHR 0xB0, CHR 0xC5, CHR 0xB8, CHR 0xCB, CHR 0x9C, CHR 0xE2, CHR 0x80, CHR 0x9D],
                 [CHR 0xC3, CHR 0xB0, CHR 0xC5, CHR 0xB8, CHR 0xCB, CHR 0x9C, CHR 0xC5, CHR 0xBE],
                 [CHR 0xC3, CHR 0xB0, CHR 0xC5, CHR 0xB8, CHR 0xE2, CHR 0x80, CHR 0x99, CHR 0xE2, CHR 0x80, CHR 0x9D],
                 [CHR 0xC3, CHR 0xB0, CHR 0xC5, CHR 0xB8, CHR 0xCB, CHR 0x9C, CHR 0xC5, CHR 0xB8],
                 [CHR 0xC3, CHR 0xB0, CHR 0xC5, CHR 0xB8, CHR 0xCB, CHR 0x9C, CHR 0xC2, CHR 0xA5],
                 [CHR 0xC3, CHR 0xB0, CHR 0xC5, CHR 0xB8, CHR 0xCB, CHR 0x9C, CHR 0xC2, CHR 0xB0],
                 [CHR 0xC3, CHR 0xB0, CHR 0xC5, CHR 0xB8, CHR 0xCB, CHR 0x9C, CHR 0xC2, CHR 0xBF],
                 [CHR 0xC3, CHR 0xB0, CHR 0xC5, CHR 0xB8, CHR 0xE2, CHR 0x84, CHR 0xA2],
                 [CHR 0xC3, CHR 0xB0, CHR 0xC5, CHR 0xB8, CHR 0xE2, CHR 0x84, CHR 0xA2, CHR 0xC3, CHR 0xA2, CHR 0xE2, CHR 0x82, CHR 0xAC, CHR 0xC3, CHR 0xA2, CHR 0xE2, CHR 0x84, CHR 0xA2, CHR 0xE2, CHR 0x82, CHR 0xAC, CHR 0xC3, CHR 0xAF, CHR 0xC2, CHR 0xB8],
                 [CHR 0xC3, CHR 0xB0, CHR 0xC5, CHR 0xB8, CHR 0xE2, CHR 0x84, CHR 0xA2, CHR 0xC3, CHR 0xA2, CHR 0xE2, CHR 0x82, CHR 0xAC, CHR 0xC3, CHR 0xA2, CHR 0xE2, CHR 0x84, CHR 0xA2, CHR 0xE2, CHR 0x80, CHR 0x9A, CHR 0xC3, CHR 0xAF, CHR 0xC2, CHR 0xB8]],
       e_intensifiers = [''very'', ''really'', ''extremely'', ''deeply'', ''terribly'',
                       ''awfully''],
       e_patterns = [''...'', ''sigh'', ''ugh'', ''oh no'', ''too bad''],
       e_expressions = []\<rparr>,
      \<lparr>e_name = ''anger'',
       e_keywords = [''angry'', ''mad'', ''furious'', ''rage'', ''irritated'',
                   ''annoyed'', ''frustrated'', ''pissed'', ''livid'', ''outraged'',
                   ''incensed'', ''exasperated'', ''enraged'', ''hate'', ''despise'',
                   ''loathe''],
       e_emojis = [[CHR 0xC3, CHR 0xB0, CHR 0xC5, CHR 0xB8, CHR 0xCB, CHR 0x9C, CHR 0xC2, CHR 0xA1],
                 [CHR 0xC3, CHR 0xB0, CHR 0xC5, CHR 0xB8, CHR 0xCB, CHR 0x9C, CHR 0xC2, CHR 0xA4],
                 [CHR 0xC3, CHR 0xB0, CHR 0xC5, CHR 0xB8, CHR 0xC2, CHR 0xA4, CHR 0xC2, CHR 0xAC],
                 [CHR 0xC3, CHR 0xB0, CHR 0xC5, CHR 0xB8, CHR 0xCB, CHR 0x9C, CHR 0xC2, CHR 0xA0],
                 [CHR 0xC3, CHR 0xB0, CHR 0xC5, CHR 0xB8, CHR 0xE2, CHR 0x80, CHR 0x98, CHR 0xC2, CHR 0xBF],
                 [CHR 0xC3, CHR 0xB0, CHR 0xC5, CHR 0xB8, CHR 0xCB, CHR 0x9C, CHR 0xC2, CHR 0xBE],
                 [CHR 0xC3, CHR 0xB0, CHR 0xC5, CHR 0xB8, CHR 0xE2, CHR 0x84, CHR 0xA2, CHR 0xC5, CHR 0xBD],
                 [CHR 0xC3, CHR 0xB0, CHR 0xC5, CHR 0xB8, CHR 0xE2, CHR 0x84, CHR 0xA2, CHR 0xC5, CHR 0xBD, CHR 0xC3, CHR 0xA2, CHR 0xE2, CHR 0x82, CHR 0xAC, CHR 0xC3, CHR 0xA2, CHR 0xE2, CHR 0x84, CHR 0xA2, CHR 0xE2, CHR 0x82, CHR 0xAC, CHR 0xC3, CHR 0xAF, CHR 0xC2, CHR 0xB8],
                 [CHR 0xC3, CHR 0xB0, CHR 0xC5, CHR 0xB8, CHR 0xE2, CHR 0x84, CHR 0xA2, CHR 0xC5, CHR 0xBD, CHR 0xC3, CHR 0xA2, CHR 0xE2, CHR 0x82, CHR 0xAC, CHR 0xC3, CHR 0xA2, CHR 0xE2, CHR 0x84, CHR 0xA2, CHR 0xE2, CHR 0x80, CHR 0x9A, CHR 0xC3, CHR 0xAF, CHR 0xC2, CHR 0xB8]],
       e_intensifiers = [''so'', ''very'', ''really'', ''extremely'', ''absolutely'',
                       ''completely'', ''totally''],
       e_patterns = [''grr'', ''argh'', ''damn'', ''hell'', ''what the'',
                   ''are you kidding me''],
       e_expressions = []\<rparr>,
      \<lparr>e_name = ''fear'',
       e_keywords = [''scared'', ''afraid'', ''terrified'', ''frightened'', ''worried'',
                   ''anxious'', ''nervous'', ''panic'', ''dread'', ''fearful'',
                   ''concerned'', ''apprehensive'', ''uneasy'', ''disturbed'',
                   ''alarmed''],
       e_emojis = [[CHR 0xC3, CHR 0xB0, CHR 0xC5, CHR 0xB8, CHR 0xCB, CHR 0x9C, CHR 0xC2, CHR 0xA8],
                 [CHR 0xC3, CHR 0xB0, CHR 0xC5, CHR 0xB8, CHR 0xCB, CHR 0x9C, CHR 0xC2, CHR 0xB0],
                 [CHR 0xC3, CHR 0xB0, CHR 0xC5, CHR 0xB8, CHR 0xCB, CHR 0x9C, CHR 0xC2, CHR 0xB1],
                 [CHR 0xC3, CHR 0xB0, CHR 0xC5, CHR 0xB8, CHR 0xCB, CHR 0x9C, CHR 0xC5, CHR 0xB8],
                 [CHR 0xC3, CHR 0xB0, CHR 0xC5, CHR 0xB8, CHR 0xCB, CHR 0x9C, CHR 0xC2, CHR 0xA5],
                 [CHR 0xC3, CHR 0xB0, CHR 0xC5, CHR 0xB8, CHR 0xCB, CHR 0x9C, CHR 0xC2, CHR 0xA7],
                 [CHR 0xC3, CHR 0xB0, CHR 0xC5, CHR 0xB8, CHR 0xCB, CHR 0x9C, CHR 0xC2, CHR 0xA6],
                 [CHR 0xC3, CHR 0xB0, CHR 0xC5, CHR 0xB8, CHR 0xCB, CHR 0x9C, CHR 0xC2, CHR 0xAF],
                 [CHR 0xC3, CHR 0xB0, CHR 0xC5, CHR 0xB8, CHR 0xCB, CHR 0x9C, CHR 0xC2, CHR 0xB2]],
       e_intensifiers = [''so'', ''very'', ''really'', ''extremely'', ''absolutely'',
                       ''completely''],
       e_patterns = [''oh no'', ''what if'', ''i hope not'',
                   ''i'' @ [CHR 0x27] @ ''m worried''],
       e_expressions = []\<rparr>,
      \<lparr>e_name = ''love'',
       e_keywords = [''love'', ''adore'', ''cherish'', ''devoted'', ''affection'',
                   ''romantic'', ''sweet'', ''cute'', ''precious'', ''treasure'',
                   ''beloved'', ''darling'', ''honey'', ''sweetheart''],
       e_emojis = [[CHR 0xC3, CHR 0xA2, CHR 0xC2, CHR 0xA4, CHR 0xC3, CHR 0xAF, CHR 0xC2, CHR 0xB8],
                 [CHR 0xC3, CHR 0xB0, CHR 0xC5, CHR 0xB8, CHR 0xE2, CHR 0x80, CHR 0x99, CHR 0xE2, CHR 0x80, CHR 0xA2],
                 [CHR 0xC3, CHR 0xB0, CHR 0xC5, CHR 0xB8, CHR 0xE2, CHR 0x80, CHR 0x99, CHR 0xE2, CHR 0x80, CHR 0x93],
                 [CHR 0xC3, CHR 0xB0, CHR 0xC5, CHR 0xB8, CHR 0xE2, CHR 0x80, CHR 0x99, CHR 0xE2, CHR 0x80, CHR 0x94],
                 [CHR 0xC3, CHR 0xB0, CHR 0xC5, CHR 0xB8, CHR 0xE2, CHR 0x80, CHR 0x99, CHR 0xCB, CHR 0x9C],
                 [CHR 0xC3, CHR 0xB0, CHR 0xC5, CHR 0xB8, CHR 0xE2, CHR 0x80, CHR 0x99],
                 [CHR 0xC3, CHR 0xB0, CHR 0xC5, CHR 0xB8, CHR 0xE2, CHR 0x80, CHR 0x99, CHR 0xC5, CHR 0xBE],
                 [CHR 0xC3, CHR 0xB0, CHR 0xC5, CHR 0xB8, CHR 0xE2, CHR 0x80, CHR 0x99, CHR 0xC5, CHR 0xB8],
                 [CHR 0xC3, CHR 0xA2, CHR 0xC2, CHR 0xA3, CHR 0xC3, CHR 0xAF, CHR 0xC2, CHR 0xB8],
                 [CHR 0xC3, CHR 0xB0, CHR 0xC5, CHR 0xB8, CHR 0xCB, CHR 0x9C],
                 [CHR 0xC3, CHR 0xB0, CHR 0xC5, CHR 0xB8, CHR 0xC2, CHR 0xA5, CHR 0xC2, CHR 0xB0],
                 [CHR 0xC3, CHR 0xB0, CHR 0xC5, CHR 0xB8, CHR 0xCB, CHR 0x9C, CHR 0xCB, CHR 0x9C],
                 [CHR 0xC3, CHR 0xB0, CHR 0xC5, CHR 0xB8, CHR 0xE2, CHR 0x80, CHR 0x99, CHR 0xE2, CHR 0x80, CHR 0xB9]],
       e_intensifiers = [''so'', ''very'', ''really'', ''truly'', ''deeply'',
                       ''absolutely''],
       e_patterns = [],
       e_expressions = [''i love'', ''i adore'', ''my love'', ''my heart'']\<rparr>,
      \<lparr>e_name = ''surprise'',
       e_keywords = [''surprised'', ''amazed'', ''astonished'', ''shocked'', ''stunned'',
                   ''bewildered'', ''confused'', ''puzzled'', ''perplexed'',
                   ''startled'', ''unexpected'', ''sudden'', ''wow''],
       e_emojis = [[CHR 0xC3, CHR 0xB0, CHR 0xC5, CHR 0xB8, CHR 0xCB, CHR 0x9C, CHR 0xC2, CHR 0xAE],
                 [CHR 0xC3, CHR 0xB0, CHR 0xC5, CHR 0xB8, CHR 0xCB, CHR 0x9C, CHR 0xC2, CHR 0xB2],
                 [CHR 0xC3, CHR 0xB0, CHR 0xC5, CHR 0xB8, CHR 0xCB, CHR 0x9C, CHR 0xC2, CHR 0xAF],
                 [CHR 0xC3, CHR 0xB0, CHR 0xC5, CHR 0xB8, CHR 0xCB, CHR 0x9C, CHR 0xC2, CHR 0xB1],
                 [CHR 0xC3, CHR 0xB0, CHR 0xC5, CHR 0xB8, CHR 0xC2, CHR 0xA4, CHR 0xC2, CHR 0xAF],
                 [CHR 0xC3, CHR 0xB0, CHR 0xC5, CHR 0xB8, CHR 0xCB, CHR 0x9C, CHR 0xC2, CHR 0xB3],
                 [CHR 0xC3, CHR 0xB0, CHR 0xC5, CHR 0xB8, CHR 0xE2, CHR 0x84, CHR 0xA2, CHR 0xE2, CHR 0x82, CHR 0xAC],
                 [CHR 0xC3, CHR 0xB0, CHR 0xC5, CHR 0xB8, CHR 0xCB, CHR 0x9C, CHR 0xC2, CHR 0xB5]],
       e_intensifiers = [],
       e_patterns = [],
       e_expressions = [''what'', ''oh my'', ''wow'', ''unbelievable'', ''incredible'',
                      ''no way'', ''really'', ''are you serious'']\<rparr>,
      \<lparr>e_name = ''neutral'',
       e_keywords = [''fine'', ''okay'', ''alright'', ''normal'', ''regular'',
                   ''standard'', ''usual'', ''typical'', ''ordinary'', ''common'',
                   ''basic'', ''simple'', ''clear''],
       e_emojis = [[CHR 0xC3, CHR 0xB0, CHR 0xC5, CHR 0xB8, CHR 0xCB, CHR 0x9C],
                 [CHR 0xC3, CHR 0xB0, CHR 0xC5, CHR 0xB8, CHR 0xCB, CHR 0x9C, CHR 0xE2, CHR 0x80, CHR 0x98],
                 [CHR 0xC3, CHR 0xB0, CHR 0xC5, CHR 0xB8, CHR 0xC2, CHR 0xA4, CHR 0xE2, CHR 0x80, CHR 0x9D],
                 [CHR 0xC3, CHR 0xB0, CHR 0xC5, CHR 0xB8, CHR 0xE2, CHR 0x84, CHR 0xA2, CHR 0xE2, CHR 0x80, CHR 0x9E],
                 [CHR 0xC3, CHR 0xB0, CHR 0xC5, CHR 0xB8, CHR 0xCB, CHR 0x9C, CHR 0xC2, CHR 0xB6]],
       e_intensifiers = [],
       e_patterns = [''.'', ''...'', ''meh'', ''whatever'', ''i guess''],
       e_expressions = []\<rparr>]"


definition hits :: "string list \<Rightarrow> string \<Rightarrow> nat" where
  \<comment> \<open>how many strings of the list occur in the text\<close>
  "hits ws text = length (filter (\<lambda>w. isin w text) ws)"

definition emotion_score :: "string \<Rightarrow> emotion_pattern \<Rightarrow> nat" where
  "emotion_score text p =
     2 * hits (e_keywords p) (lower text)
     + 3 * hits (e_emojis p) text
     + hits (e_intensifiers p) (lower text)
     + 2 * hits (e_patterns p) (lower text)
     + 2 * hits (e_expressions p) (lower text)
     + (if e_name p = ''joy''
           \<and> (isin ''!!!'' text
               \<or> list_ex (\<lambda>r. 4 \<le> length r \<and> is_lower (hd r)) (group_by id (lower text)))
        then 3 else 0)
     + (if e_name p = ''anger'' \<and> (isin ''!!!'' text \<or> isin ''??'' text) then 2 else 0)"

definition get_rule_based_emotions :: "string \<Rightarrow> (string \<times> real) list" where
  \<comment> \<open>the dictionary of percentages, in the order of its keys\<close>
  "get_rule_based_emotions text =
     (let total_score = (\<Sum>p \<leftarrow> emotion_patterns. emotion_score text p)
      in if 0 < total_score then
           map (\<lambda>p. (e_name p, real (emotion_score text p) / real total_score * 100))
             (filter (\<lambda>p. 0 < emotion_score text p) emotion_patterns)
         else [(''neutral'', 60), (''uncertain'', 40)])"

text \<open>
  The state of the module: whether PyTorch could be imported, whether \<open>load_model\<close> has
  run, and the DistilBERT model with its tokenizer when both are loaded. The model is
  the function from a text to what the prediction gives: an exception, or the labels of
  \<open>id2label\<close>, each with its probability times 100.
\<close>

type_synonym distilbert = "string \<Rightarrow> exn + (string \<times> real) list"

record classifier_state =
  torch_available :: bool
  model_loaded :: bool
  distilbert_model :: "distilbert option"

definition DISTILBERT_EMOTIONS :: "string list" where
  "DISTILBERT_EMOTIONS =
     [''anger'', ''fear'', ''joy'', ''love'', ''sadness'', ''surprise'', ''neutral'']"

definition dict_get :: "(string \<times> real) list \<Rightarrow> string \<Rightarrow> real" where
  \<comment> \<open>\<open>d.get(k, 0)\<close>\<close>
  "dict_get d k = (case map_of d k of None \<Rightarrow> 0 | Some v \<Rightarrow> v)"

definition get_distilbert_emotions :: "classifier_state \<Rightarrow> string \<Rightarrow> (string \<times> real) list" where
  \<comment> \<open>an exception of the prediction is caught here and the rule-based percentages
      returned. The percentages of the model are entered label after label, so that the
      last entry for a label is the one that is read.\<close>
  "get_distilbert_emotions st text =
     (let rule_based_emotions = get_rule_based_emotions text in
      case distilbert_model st of
        None \<Rightarrow> rule_based_emotions
      | Some predict \<Rightarrow>
          if \<not> torch_available st then rule_based_emotions
          else
            (case predict text of
               Inl e \<Rightarrow> rule_based_emotions
             | Inr probabilities \<Rightarrow>
                 (let emotion_percentages =
                        rev (filter (\<lambda>(label, p). label \<in> set DISTILBERT_EMOTIONS) probabilities);
                      all_emotions = remdups (map fst emotion_percentages @ map fst rule_based_emotions)
                  in map (\<lambda>emotion. (emotion, dict_get emotion_percentages emotion * 0.7
                                               + dict_get rule_based_emotions emotion * 0.3))
                       all_emotions)))"

section \<open>The emotion classifier: \<open>load_model\<close> and \<open>classify_query\<close>\<close>

text \<open>
  What loading meets: whether \<open>transformers\<close> can be imported, and what
  \<open>from_pretrained\<close> gives for the emotion model and for the alternative model.
\<close>

record loader =
  transformers_import :: "exn option"
  primary_model :: "exn + distilbert"
  alternative_model :: "exn + distilbert"

definition load_model :: "loader \<Rightarrow> classifier_state \<Rightarrow> bool \<times> classifier_state" where
  \<comment> \<open>every path returns \<open>True\<close> and sets \<open>_model_loaded\<close>\<close>
  "load_model ld st =
     (if model_loaded st then (True, st)
      else
        (case (if \<not> torch_available st
               then Inl (ImportError ''PyTorch not available for DistilBERT model loading'')
               else
                 (case transformers_import ld of
                    Some e \<Rightarrow> Inl e
                  | None \<Rightarrow> (case primary_model ld of Inr m \<Rightarrow> Inr m | Inl e \<Rightarrow> alternative_model ld))) of
           Inr m \<Rightarrow> (True, st\<lparr>model_loaded := True, distilbert_model := Some m\<rparr>)
         | Inl e \<Rightarrow> (True, st\<lparr>model_loaded := True\<rparr>)))"

text \<open>
  The argument of \<open>classify_query\<close> is a \<open>str\<close>, or a value of another type (\<open>None\<close>, a
  number, a list), given by the name of its type: such a value has no method \<open>split\<close>.
\<close>

datatype py_value = Str string | Other string

definition str_of_exn :: "exn \<Rightarrow> string" where
  \<comment> \<open>\<open>str(e)\<close>\<close>
  "str_of_exn e =
     (case e of
        NameError m \<Rightarrow> m | ValueError m \<Rightarrow> m | KeyError m \<Rightarrow> m | RequestException m \<Rightarrow> m
      | PlaywrightError m \<Rightarrow> m | OSError m \<Rightarrow> m | ImportError m \<Rightarrow> m | AttributeError m \<Rightarrow> m)"

definition analyze_text_complexity :: "string \<Rightarrow> nat" where
  \<comment> \<open>the word count of \<open>analyze_text_complexity\<close>, the one entry that is read later\<close>
  "analyze_text_complexity text = length (py_split text)"

definition no_split :: "string \<Rightarrow> exn" where
  \<comment> \<open>what \<open>text.split()\<close> raises on a value of the named type\<close>
  "no_split ty =
     AttributeError ([CHR 0x27] @ ty @ [CHR 0x27] @ '' object has no attribute ''
                     @ [CHR 0x27] @ ''split'' @ [CHR 0x27])"

definition raise_positive :: "real option \<Rightarrow> scores \<Rightarrow> scores" where
  "raise_positive p s =
     (case p of
        None \<Rightarrow> s
      | Some v \<Rightarrow> s\<lparr>positive_valence := max (positive_valence s) (v / 10)\<rparr>)"

definition raise_negative :: "real option \<Rightarrow> scores \<Rightarrow> scores" where
  "raise_negative p s =
     (case p of
        None \<Rightarrow> s
      | Some v \<Rightarrow> s\<lparr>negative_valence := max (negative_valence s) (v / 10)\<rparr>)"

definition raise_negative_arousal :: "real option \<Rightarrow> scores \<Rightarrow> scores" where
  "raise_negative_arousal p s =
     (case p of
        None \<Rightarrow> s
      | Some v \<Rightarrow> s\<lparr>negative_valence := max (negative_valence s) (v / 10),
                     high_arousal := max (high_arousal s) (v / 10)\<rparr>)"

definition enhance :: "(string \<times> real) list \<Rightarrow> scores \<Rightarrow> scores" where
  \<comment> \<open>the scores raised to the percentages of joy, of sadness, of anger and of fear, over
      ten, for those that are keys of the dictionary\<close>
  "enhance emotions s =
     (if emotions = [] then s
      else raise_negative_arousal (map_of emotions ''fear'')
             (raise_negative_arousal (map_of emotions ''anger'')
                (raise_negative (map_of emotions ''sadness'')
                   (raise_positive (map_of emotions ''joy'') s))))"

definition clamp :: "real \<Rightarrow> real" where
  \<comment> \<open>\<open>max(-1.0, min(1.0, x))\<close>\<close>
  "clamp x = max (- 1.0) (min 1.0 x)"

definition make_profile :: "scores \<Rightarrow> (string \<times> real) list" where
  "make_profile s =
     [(''valence'', clamp ((positive_valence s - negative_valence s) / 10.0)),
      (''arousal'', clamp (high_arousal s / 10.0)),
      (''engagement'', clamp (high_engagement s / 10.0)),
      (''regulation'', clamp (neutral_regulation s))]"

definition determine_tool_from_psychology :: "string \<Rightarrow> string" where
  \<comment> \<open>the tool of \<open>state_tool_mapping\<close>, \<open>web_search\<close> for a state that is not a key\<close>
  "determine_tool_from_psychology state =
     (case map_of
        [(''high_positive_arousal'', ''music''),
         (''positive_valence'', ''music''),
         (''high_negative_arousal'', ''meditation''),
         (''negative_valence'', ''meditation''),
         (''high_intensity_state'', ''meditation''),
         (''high_engagement'', ''web_search''),
         (''low_engagement_shutdown'', ''meditation''),
         (''brief_communication'', ''web_search''),
         (''mixed_valence'', ''journal''),
         (''neutral_regulation'', ''web_search'')] state of
        None \<Rightarrow> ''web_search''
      | Some t \<Rightarrow> t)"

definition generate_psychological_insights :: "scores \<Rightarrow> (string \<times> real) list \<Rightarrow> nat \<Rightarrow> string list" where
  \<comment> \<open>the insights in the order they are appended. No insight comes from the detected
      patterns: the test reads their key \<open>confidence\<close>, which no pattern has.\<close>
  "generate_psychological_insights s profile word_count =
     (let valence = dict_get profile ''valence'';
          arousal = dict_get profile ''arousal'';
          engagement = dict_get profile ''engagement''
      in (if word_count \<le> 3 then
            (if 1.0 < positive_valence s
             then [''Brief but positive message - efficient communication style'']
             else if 1.0 < high_arousal s
             then [''Brief but intense message - focused emotional expression'']
             else [''Very brief message - possible emotional shutdown, time constraints, or preference for minimal communication''])
          else if word_count \<le> 10
          then [''Short message - efficiency focus or mild emotional restraint'']
          else if 50 \<le> word_count
          then [''Long message - high engagement or need for detailed expression'']
          else [])
         @ (if 0.5 < valence then [''Strong positive valence detected'']
            else if valence < - 0.5 then [''Strong negative valence detected'']
            else if \<bar>valence\<bar> < 0.2 then [''Neutral valence - balanced emotional state'']
            else [])
         @ (if 0.7 < arousal
            then [''High arousal state - intense emotional or cognitive activity'']
            else if arousal < 0.2
            then [''Low arousal state - calm or potentially disengaged'']
            else [])
         @ (if 0.6 < engagement
            then [''High engagement - active cognitive and emotional investment'']
            else if engagement < - 0.2
            then [''Low engagement - possible emotional disconnection or time pressure'']
            else [])
         @ (if valence \<noteq> 0 \<and> \<bar>valence\<bar> < 0.3 \<and> 1.0 < positive_valence s \<and> 1.0 < negative_valence s
            then [''Mixed emotional signals detected - possible internal conflict or complex emotional state'']
            else []))"

text \<open>
  The dictionary that \<open>classify_query\<close> returns, with the entries the interface names:
  state, confidence, tool, profile, insights, and the error of a fallback.
\<close>

record classification =
  primary_state :: string
  confidence :: real
  tool :: string
  psychological_profile :: "(string \<times> real) list"
  psychological_insights :: "string list"
  error :: "string option"

definition model_unavailable :: classification where
  \<comment> \<open>returned when \<open>load_model\<close> returns false\<close>
  "model_unavailable =
     \<lparr>primary_state = ''neutral_regulation'', confidence = 1.0, tool = ''web_search'',
      psychological_profile = [(''valence'', 0.0), (''arousal'', 0.0), (''engagement'', 0.0)],
      psychological_insights = [''Model unavailable - using neutral fallback''],
      error = Some ''Model not available''\<rparr>"

definition neutral_fallback :: "exn \<Rightarrow> classification" where
  \<comment> \<open>returned by the handler of \<open>classify_query\<close>\<close>
  "neutral_fallback e =
     \<lparr>primary_state = ''neutral_regulation'', confidence = 1.0, tool = ''web_search'',
      psychological_profile =
        [(''valence'', 0.0), (''arousal'', 0.0), (''engagement'', 0.0), (''regulation'', 1.0)],
      psychological_insights = [''Analysis failed - using neutral fallback''],
      error = Some (str_of_exn e)\<rparr>"

definition analyse :: "classifier_state \<Rightarrow> py_value \<Rightarrow> exn + classification" where
  \<comment> \<open>the body of the \<open>try\<close> of \<open>classify_query\<close>: \<open>Inl\<close> when a step raises, as the
      first step, \<open>analyze_text_complexity\<close>, does on a value that is no \<open>str\<close>. The steps
      that only fill \<open>emotional_nuance\<close> and \<open>context_analysis\<close> are left out.\<close>
  "analyse st v =
     (case v of
        Other ty \<Rightarrow> Inl (no_split ty)
      | Str text \<Rightarrow>
          (let word_count = analyze_text_complexity text;
               psychological_scores =
                 enhance (get_distilbert_emotions st text) (calculate_psychological_scores text);
               (state, conf) = determine_psychological_state psychological_scores;
               profile = make_profile psychological_scores
           in Inr \<lparr>primary_state = state, confidence = conf,
                   tool = determine_tool_from_psychology state,
                   psychological_profile = profile,
                   psychological_insights =
                     generate_psychological_insights psychological_scores profile word_count,
                   error = None\<rparr>))"

definition classify_query ::
  "loader \<Rightarrow> classifier_state \<Rightarrow> py_value \<Rightarrow> (exn + classification) \<times> classifier_state" where
  \<comment> \<open>\<open>classify_query(text)\<close>: the result, \<open>Inl\<close> for an exception that reaches the
      caller, and the state of the module after the call\<close>
  "classify_query ld st v =
     (let (loaded, st1) = (if model_loaded st then (True, st) else load_model ld st)
      in if \<not> model_loaded st \<and> \<not> loaded then (Inr model_unavailable, st1)
         else
           (case analyse st1 v of
              Inr r \<Rightarrow> (Inr r, st1)
            | Inl e \<Rightarrow> (Inr (neutral_fallback e), st1)))"

section \<open>Trimmed text\<close>


section \<open>Sample data\<close>


definition item1 :: search_result where
  "item1 = \<lparr>title = ''Cats - Wikipedia'', url = ''https://en.wikipedia.org/wiki/Cat'', snippet = None\<rparr>"

definition result_div :: "string \<Rightarrow> string \<Rightarrow> node" where
  \<comment> \<open>\<open><div class="result"><a href="h">t</a></div>\<close>\<close>
  "result_div t h = Elem ''div'' [(''class'', ''result'')] [Elem ''a'' [(''href'', h)] [Text t]]"

definition three_results :: node where
  "three_results =
     Elem ''[document]'' []
       [result_div ''Python Tutorial'' ''https://docs.python.org/3/tutorial/'',
        result_div ''Learn Python'' ''https://www.learnpython.org/'',
        result_div ''Python (programming language)'' ''https://en.wikipedia.org/wiki/Python'']"

definition page_ok :: attempt where
  \<comment> \<open>the request succeeds, the answer is no bot challenge, the dump succeeds\<close>
  "page_ok = \<lparr>first_get = Inr ''<html>'', retry_get = Inr ''<html>'', dump = None\<rparr>"

definition simple_ok :: simple_attempt where
  "simple_ok = \<lparr>page_get = Inr ''<html>'', page_dump = None\<rparr>"

definition session_of :: "string \<Rightarrow> pw_container list \<Rightarrow> pw_session" where
  \<comment> \<open>a session in which every Playwright call succeeds\<close>
  "session_of html cs =
     \<lparr>launch = None, goto = None, content = Inr html, containers = Inr (map Inr cs)\<rparr>"

definition tutorial_container :: pw_container where
  "tutorial_container =
     \<lparr>title_text = Some ''  Python   Tutorial '',
      link_href = Some ''https://docs.python.org/3/tutorial/'',
      snippet_text = Some '' The Python tutorial ''\<rparr>"


definition wrapped_container :: pw_container where
  \<comment> \<open>a result for \<open>https://example.com/search?q=100%25\<close> behind the redirect wrapper\<close>
  "wrapped_container =
     \<lparr>title_text = Some ''Search results for 100%'',
      link_href = Some
        ''//duckduckgo.com/l/?uddg=https%3A%2F%2Fexample.com%2Fsearch%3Fq%3D100%2525&rut=4f1c'',
      snippet_text = None\<rparr>"

definition captcha_html :: string where
  \<comment> \<open>a page that shows the phrase \<open>CAPTCHA\<close> of the block list\<close>
  "captcha_html = ''<html><body><h1>Please complete the CAPTCHA to continue</h1></body></html>''"

definition wrapper_div :: node where
  \<comment> \<open>a result whose only link is a redirect wrapper on another host\<close>
  "wrapper_div =
     Elem ''[document]'' []
       [result_div ''Example Domain''
          ''https://r.search.example/l/?uddg=https%3A%2F%2Fexample.com%2F&rut=4f1c'']"

definition network_down :: simple_attempt where
  \<comment> \<open>\<open>requests.get\<close> raises\<close>
  "network_down = \<lparr>page_get = Inl (RequestException ''Connection refused''), page_dump = None\<rparr>"

definition after_load :: "loader \<Rightarrow> classifier_state \<Rightarrow> classifier_state" where
  \<comment> \<open>the state of the module once \<open>classify_query\<close> has made sure the model is loaded\<close>
  "after_load ld st = (if model_loaded st then st else snd (load_model ld st))"

definition in_unit :: "classification \<Rightarrow> string \<Rightarrow> bool" where
  \<comment> \<open>the profile has the component, between -1 and 1\<close>
  "in_unit r k =
     (case map_of (psychological_profile r) k of None \<Rightarrow> False | Some x \<Rightarrow> - 1 \<le> x \<and> x \<le> 1)"

definition no_model :: classifier_state where
  \<comment> \<open>the module before any call, on a machine without PyTorch\<close>
  "no_model = \<lparr>torch_available = False, model_loaded = False, distilbert_model = None\<rparr>"

definition no_loader :: loader where
  "no_loader =
     \<lparr>transformers_import = Some (ImportError ''No module named transformers''),
      primary_model = Inl (OSError ''offline''),
      alternative_model = Inl (OSError ''offline'')\<rparr>"

chapter \<open>Properties\<close>

section \<open>Properties of the cache\<close>

lemma get_cached_keeps_nonempty:
  "cache_nonempty c \<Longrightarrow> cache_nonempty (snd (get_cached c now query))"
  by (auto simp: cache_nonempty_def get_cached_def split: option.splits prod.splits if_splits)

lemma set_cache_keeps_nonempty:
  "cache_nonempty c \<Longrightarrow> cache_nonempty (set_cache c now query results)"
  by (auto simp: cache_nonempty_def set_cache_def)

lemma search_keeps_nonempty:
  assumes "cache_nonempty c"
  shows "cache_nonempty (fst (snd (search c q env)))"
proof -
  have g: "cache_nonempty (snd (get_cached c (now_get env) (strip (args_get q))))"
    using assms by (rule get_cached_keeps_nonempty)
  show ?thesis
  proof (cases "get_cached c (now_get env) (strip (args_get q))")
    case (Pair hit c1)
    with g have "cache_nonempty c1" by simp
    then show ?thesis
      using assms Pair
      by (cases hit) (simp_all add: search_def Let_def set_cache_keeps_nonempty)
  qed
qed

lemma serve_keeps_nonempty:
  "cache_nonempty c \<Longrightarrow> cache_nonempty (serve c calls)"
proof (induction calls arbitrary: c)
  case Nil
  then show ?case by simp
next
  case (Cons call calls)
  obtain q env where call: "call = (q, env)" by (cases call)
  show ?case
    unfolding call serve.simps
    by (rule Cons.IH) (rule search_keeps_nonempty [OF Cons.prems])
qed

lemma empty_cache_nonempty: "cache_nonempty Map.empty"
  by (simp add: cache_nonempty_def)

section \<open>Stripping sample text\<close>

lemma strip_cats: "strip ''cats'' = ''cats''"
  by (simp add: strip_def lstrip_def rstrip_def py_isspace_def)


section \<open>The cache within its freshness window\<close>

text \<open>
  C5. The claim is that two calls of the endpoint of \<open>flask_app.py\<close> with the same query
  within the freshness window return the same list, the second without a retrieval. The
  code does so when the first call returned a non-empty list: the list is then in the
  cache, with some time stamp, and every later call whose clock reading is within
  \<open>CACHE_TTL_SECONDS\<close> of that stamp returns the same response, leaves the cache as it
  is and does not call \<open>fetch_google_results\<close>.
\<close>

theorem search_twice_within_ttl:
  assumes first: "search c q env1 = (r1, c1, called1)"
      and nonempty: "body r1 \<noteq> []"
  shows "\<exists>ts. c1 (strip (args_get q)) = Some (body r1, ts)
           \<and> (\<forall>env2. now_get env2 - ts \<le> CACHE_TTL_SECONDS
                 \<longrightarrow> search c1 q env2 = (r1, c1, False))"
proof -
  let ?query = "strip (args_get q)"
  have q: "?query \<noteq> []"
    using first nonempty by (auto simp: search_def Let_def jsonify_def)
  show ?thesis
  proof (cases "c ?query")
    case None
    then have "r1 = jsonify (fetched env1)" "c1 = set_cache c (now_set env1) ?query (fetched env1)"
      using first q by (auto simp: search_def Let_def get_cached_def)
    then show ?thesis
      using nonempty q
      by (auto simp: search_def Let_def get_cached_def set_cache_def jsonify_def)
  next
    case (Some entry)
    obtain rs ts where entry: "entry = (rs, ts)" by (cases entry)
    show ?thesis
    proof (cases "now_get env1 - ts \<le> CACHE_TTL_SECONDS")
      case True
      then have "r1 = jsonify rs" "c1 = c"
        using first q Some entry by (auto simp: search_def Let_def get_cached_def)
      then show ?thesis
        using Some entry q
        by (auto simp: search_def Let_def get_cached_def jsonify_def)
    next
      case False
      then have "r1 = jsonify (fetched env1)"
        "c1 = set_cache (c(?query := None)) (now_set env1) ?query (fetched env1)"
        using first q Some entry by (auto simp: search_def Let_def get_cached_def)
      then show ?thesis
        using nonempty q
        by (auto simp: search_def Let_def get_cached_def set_cache_def jsonify_def)
    qed
  qed
qed

theorem search_twice_within_ttl_witness:
  "search Map.empty (Some ''cats'') \<lparr>now_get = 0, fetched = [item1], now_set = 3\<rparr>
     = (jsonify [item1], [''cats'' \<mapsto> ([item1], 3)], True)
   \<and> body (jsonify [item1]) \<noteq> []
   \<and> (100::real) - 3 \<le> CACHE_TTL_SECONDS
   \<and> search [''cats'' \<mapsto> ([item1], 3)] (Some ''cats'')
         \<lparr>now_get = 100, fetched = [], now_set = 101\<rparr>
       = (jsonify [item1], [''cats'' \<mapsto> ([item1], 3)], False)"
proof -
  have h1: "search Map.empty (Some ''cats'') \<lparr>now_get = 0, fetched = [item1], now_set = 3\<rparr>
     = (jsonify [item1], [''cats'' \<mapsto> ([item1], 3)], True)"
    by (simp add: search_def Let_def get_cached_def set_cache_def args_get_def strip_cats)
  have h2: "body (jsonify [item1]) \<noteq> []"
    by (simp add: jsonify_def)
  have h3: "(100::real) - 3 \<le> CACHE_TTL_SECONDS"
    by (simp add: CACHE_TTL_SECONDS_def)
  obtain ts where stored: "[''cats'' \<mapsto> ([item1], 3::real)] (strip (args_get (Some ''cats'')))
        = Some (body (jsonify [item1]), ts)"
    and again: "\<forall>env2. now_get env2 - ts \<le> CACHE_TTL_SECONDS
        \<longrightarrow> search [''cats'' \<mapsto> ([item1], 3)] (Some ''cats'') env2
            = (jsonify [item1], [''cats'' \<mapsto> ([item1], 3)], False)"
    using search_twice_within_ttl [OF h1 h2] by blast
  from stored have "ts = 3"
    by (simp add: args_get_def strip_cats)
  with again h3 have "search [''cats'' \<mapsto> ([item1], 3)] (Some ''cats'')
         \<lparr>now_get = 100, fetched = [], now_set = 101\<rparr>
       = (jsonify [item1], [''cats'' \<mapsto> ([item1], 3)], False)"
    by simp
  with h1 h2 h3 show ?thesis by blast
qed

text \<open>
  As stated, for every query, the claim fails: an empty list is not stored, so the second
  call retrieves again and may return another list.
\<close>

theorem search_twice_counterexample:
  "(let (r1, c1, called1) =
          search Map.empty (Some ''cats'') \<lparr>now_get = 0, fetched = [], now_set = 1\<rparr>;
        (r2, c2, called2) =
          search c1 (Some ''cats'') \<lparr>now_get = 2, fetched = [item1], now_set = 3\<rparr>
    in body r1 = [] \<and> body r2 = [item1] \<and> body r1 \<noteq> body r2 \<and> called2
       \<and> (2::real) - 1 \<le> CACHE_TTL_SECONDS)"
  by (simp add: search_def Let_def get_cached_def set_cache_def jsonify_def args_get_def
      strip_cats CACHE_TTL_SECONDS_def)

text \<open>
  C6. The cache never holds an empty list: every entry of the cache reached from the
  empty cache by any sequence of requests has a non-empty list. And a call whose
  retrieval returned no result leaves no entry for the query, so that the next call with
  the query retrieves again, whatever its clock reading.
\<close>

theorem cache_never_stores_empty:
  "cache_nonempty (serve Map.empty calls)
   \<and> (search c q env = (r, c', True) \<and> fetched env = []
        \<longrightarrow> c' (strip (args_get q)) = None \<and> snd (snd (search c' q env')))"
proof
  show "cache_nonempty (serve Map.empty calls)"
    by (rule serve_keeps_nonempty) (rule empty_cache_nonempty)
next
  show "search c q env = (r, c', True) \<and> fetched env = []
        \<longrightarrow> c' (strip (args_get q)) = None \<and> snd (snd (search c' q env'))"
    by (auto simp: search_def Let_def get_cached_def set_cache_def
        split: if_splits option.splits prod.splits)
qed

theorem cache_never_stores_empty_witness:
  "cache_nonempty (serve Map.empty
      [(Some ''cats'', \<lparr>now_get = 0, fetched = [item1], now_set = 3\<rparr>)])
   \<and> serve Map.empty [(Some ''cats'', \<lparr>now_get = 0, fetched = [item1], now_set = 3\<rparr>)] ''cats''
       = Some ([item1], 3)
   \<and> search Map.empty (Some ''dogs'') \<lparr>now_get = 0, fetched = [], now_set = 1\<rparr>
       = (jsonify [], Map.empty, True)
   \<and> snd (snd (search Map.empty (Some ''dogs'') \<lparr>now_get = 2, fetched = [item1], now_set = 3\<rparr>))"
proof -
  have dogs: "strip ''dogs'' = ''dogs''"
    by (simp add: strip_def lstrip_def rstrip_def py_isspace_def)
  have h1: "search Map.empty (Some ''dogs'') \<lparr>now_get = 0, fetched = [], now_set = 1\<rparr>
       = (jsonify [], Map.empty, True)"
    by (simp add: search_def Let_def get_cached_def set_cache_def args_get_def dogs)
  have h2: "serve Map.empty [(Some ''cats'', \<lparr>now_get = 0, fetched = [item1], now_set = 3\<rparr>)] ''cats''
       = Some ([item1], 3)"
    by (simp add: search_def Let_def get_cached_def set_cache_def args_get_def strip_cats)
  show ?thesis
    using h1 h2
      cache_never_stores_empty [of "[(Some ''cats'', \<lparr>now_get = 0, fetched = [item1], now_set = 3\<rparr>)]"
        Map.empty "Some ''dogs''" "\<lparr>now_get = 0, fetched = [], now_set = 1\<rparr>"
        "jsonify []" Map.empty "\<lparr>now_get = 2, fetched = [item1], now_set = 3\<rparr>"]
    by simp
qed

section \<open>Empty queries\<close>




section \<open>Slices and the loop over the containers\<close>

lemma length_py_take: "0 \<le> n \<Longrightarrow> int (length (py_take n xs)) \<le> n"
  by (simp add: py_take_def)

lemma length_collect: "length (collect step cs) \<le> length cs"
  by (simp add: collect_def map_filter_def)


lemma length_collect_take:
  assumes "0 \<le> n"
  shows "int (length (collect step (py_take n xs))) \<le> n"
proof -
  have "int (length (collect step (py_take n xs))) \<le> int (length (py_take n xs))"
    using length_collect [of step "py_take n xs"] by simp
  also have "\<dots> \<le> n" using assms by (rule length_py_take)
  finally show ?thesis .
qed

lemma first_success_cases:
  "first_success f as = [] \<or> (\<exists>a \<in> set as. f a = Some (first_success f as))"
  by (induction as) (auto split: option.splits)

lemma try_endpoint_Some:
  assumes "try_endpoint parse n a = Some rs"
  shows "\<exists>t. rs = collect (extract_container redirect_search_engine)
                    (py_take n (result_containers (parse t))) \<and> rs \<noteq> [] \<and> \<not> bot_detected t"
  using assms
  by (auto simp: try_endpoint_def Let_def split: sum.splits option.splits if_splits)

lemma scrape_ddg_html_cases:
  "scrape_ddg_html parse net query n = []
   \<or> (\<exists>t. scrape_ddg_html parse net query n
            = collect (extract_container redirect_search_engine)
                (py_take n (result_containers (parse t))) \<and> \<not> bot_detected t)"
  using first_success_cases [of "try_endpoint parse n" "map net [0, 1, 2]"]
  unfolding scrape_ddg_html_def
  by (metis try_endpoint_Some)

section \<open>The number of results\<close>

text \<open>
  C7. The claim is that \<open>search(query, N)\<close> returns at most \<open>N\<close> results, for every query
  and every \<open>N\<close>. The three HTTP extractors cut the list of containers with the slice
  \<open>[:max_results]\<close> and append at most one result for each container, so the bound holds
  for every \<open>N\<close> that is not negative (for \<open>ddg_search\<close>: whenever it returns a list).
\<close>

theorem results_at_most_max:
  assumes "0 \<le> N"
  shows "int (length (scrape_ddg_html parse net query N)) \<le> N
       \<and> int (length (simple_scrape_ddg_html parse netloc_ok a query N)) \<le> N
       \<and> (\<forall>rs. ddg_search parse netloc_ok a query N = Inr rs \<longrightarrow> int (length rs) \<le> N)"
proof (intro conjI allI impI)
  show "int (length (scrape_ddg_html parse net query N)) \<le> N"
    using scrape_ddg_html_cases [of parse net query N] assms
    by (auto simp: length_collect_take)
next
  show "int (length (simple_scrape_ddg_html parse netloc_ok a query N)) \<le> N"
    using assms
    by (auto simp: simple_scrape_ddg_html_def length_collect_take split: sum.splits option.splits)
next
  fix rs
  assume "ddg_search parse netloc_ok a query N = Inr rs"
  then show "int (length rs) \<le> N"
    using assms
    by (auto simp: ddg_search_def ddg_html_search_def ddg_requests_search_def Let_def
        length_collect_take split: sum.splits option.splits)
qed

theorem results_at_most_max_witness:
  "(0::int) \<le> 2
   \<and> length (scrape_ddg_html (\<lambda>t. three_results) (\<lambda>i. page_ok) ''python programming'' 2) = 2
   \<and> length (simple_scrape_ddg_html (\<lambda>t. three_results) (\<lambda>h. True) simple_ok
          ''python programming'' 2) = 2
   \<and> (\<exists>rs. ddg_search (\<lambda>t. three_results) (\<lambda>h. True) simple_ok ''python programming'' 2 = Inr rs
          \<and> int (length rs) \<le> 2)"
proof -
  have pos: "(0::int) \<le> 2" by simp
  have a: "length (scrape_ddg_html (\<lambda>t. three_results) (\<lambda>i. page_ok) ''python programming'' 2) = 2"
    by code_simp
  have b: "length (simple_scrape_ddg_html (\<lambda>t. three_results) (\<lambda>h. True) simple_ok
          ''python programming'' 2) = 2"
    by code_simp
  have c: "ddg_search (\<lambda>t. three_results) (\<lambda>h. True) simple_ok ''python programming'' 2
      = Inr [\<lparr>title = ''Python Tutorial'', url = ''https://docs.python.org/3/tutorial/'',
               snippet = Some []\<rparr>,
             \<lparr>title = ''Learn Python'', url = ''https://www.learnpython.org/'',
               snippet = Some []\<rparr>]"
    by code_simp
  show ?thesis
    using a b c
      results_at_most_max [OF pos, of "\<lambda>t. three_results" "\<lambda>i. page_ok" "''python programming''"
        "\<lambda>h. True" simple_ok]
    by simp
qed

text \<open>
  With \<open>max_results = -1\<close> the slice drops the last container only: two results, more
  than \<open>N\<close>.
\<close>

theorem results_at_most_max_counterexample:
  "length (scrape_ddg_html (\<lambda>t. three_results) (\<lambda>i. page_ok) ''python programming'' (- 1)) = 2
   \<and> \<not> int (length (scrape_ddg_html (\<lambda>t. three_results) (\<lambda>i. page_ok)
              ''python programming'' (- 1))) \<le> - 1"
proof -
  have "length (scrape_ddg_html (\<lambda>t. three_results) (\<lambda>i. page_ok)
          ''python programming'' (- 1)) = 2"
    by code_simp
  then show ?thesis by simp
qed

section \<open>Trimming\<close>









section \<open>Titles of the browser extractor\<close>










section \<open>The items of the extractors\<close>






section \<open>Block pages\<close>

lemma isin_subset: "isin p s \<Longrightarrow> set p \<subseteq> set s"
proof (induction s)
  case Nil
  then show ?case by simp
next
  case (Cons c s)
  show ?case
  proof (cases "startswith (c # s) p")
    case True
    then have "p = take (length p) (c # s)" by (simp add: startswith_def)
    then have "set p \<subseteq> set (c # s)" by (metis set_take_subset)
    then show ?thesis .
  next
    case False
    with Cons show ?thesis by auto
  qed
qed

lemma lower_char_not_upper:
  "\<not> (65 \<le> (of_char (lower_char c) :: nat) \<and> (of_char (lower_char c) :: nat) \<le> 90)"
proof (cases "65 \<le> (of_char c :: nat) \<and> (of_char c :: nat) \<le> 90")
  case True
  then have "lower_char c = char_of (of_char c + (32 :: nat))"
    by (simp add: lower_char_def)
  moreover have "(of_char (char_of (of_char c + (32 :: nat))) :: nat) = of_char c + 32"
    using True by (simp add: of_char_of)
  ultimately have "(of_char (lower_char c) :: nat) = of_char c + 32" by simp
  with True show ?thesis by linarith
next
  case False
  then show ?thesis by (simp add: lower_char_def)
qed

lemma upper_phrase_never_found:
  assumes "c \<in> set p" and "65 \<le> (of_char c :: nat)" and "(of_char c :: nat) \<le> 90"
  shows "\<not> isin p (lower html)"
proof
  assume "isin p (lower html)"
  then have "c \<in> set (lower html)" using assms(1) isin_subset by blast
  then obtain d where "c = lower_char d" by (auto simp: lower_def)
  with assms(2,3) lower_char_not_upper [of d] show False by simp
qed

text \<open>
  The page is lowered before the phrases are looked for, and the phrases are not: the four
  phrases that hold a capital letter are never found.
\<close>

lemma block_page_iff:
  "block_page html
     \<longleftrightarrow> isin ''rate limit'' (lower html) \<or> isin ''too many requests'' (lower html)"
proof -
  have "\<not> isin ''Sorry, we are rate limiting requests'' (lower html)"
    by (rule upper_phrase_never_found [of "CHR ''S''"]) simp_all
  moreover have "\<not> isin (''Please prove you'' @ [CHR 0x27] @ ''re not a robot'') (lower html)"
    by (rule upper_phrase_never_found [of "CHR ''P''"]) simp_all
  moreover have "\<not> isin ''We have detected unusual traffic'' (lower html)"
    by (rule upper_phrase_never_found [of "CHR ''W''"]) simp_all
  moreover have "\<not> isin ''CAPTCHA'' (lower html)"
    by (rule upper_phrase_never_found [of "CHR ''C''"]) simp_all
  ultimately show ?thesis
    by (simp add: block_page_def blocks_def)
qed

text \<open>
  C4. The claim is that a page holding any phrase of the block list, in any case of the
  letters, is classified as blocked and nothing is extracted from it. For the page
  \<open>captcha_html\<close>, which holds the phrase \<open>CAPTCHA\<close>, \<open>fetch_google_results\<close> does not
  see a block page and returns the item of the container on the page.
\<close>

theorem block_phrase_not_detected:
  "isin ''CAPTCHA'' captcha_html
   \<and> \<not> block_page captcha_html
   \<and> fetch_google_results (\<lambda>h. True) (session_of captcha_html [tutorial_container])
       = [\<lparr>title = ''Python Tutorial'', url = ''https://docs.python.org/3/tutorial/'',
           snippet = Some ''The Python tutorial''\<rparr>]"
  by code_simp

section \<open>Redirect wrappers\<close>

text \<open>
  C2. The claim is that the URL of an item whose link is a redirect wrapper is the
  percent-decoded destination. The wrapper of \<open>wrapped_container\<close> carries
  \<open>https%3A%2F%2Fexample.com%2Fsearch%3Fq%3D100%2525\<close>, that is the destination
  \<open>https://example.com/search?q=100%25\<close>; \<open>fetch_google_results\<close> decodes the value
  that \<open>parse_qs\<close> has decoded already and returns \<open>https://example.com/search?q=100%\<close>.
\<close>

theorem wrapper_decoded_twice:
  "fetch_google_results (\<lambda>h. True) (session_of ''<html></html>'' [wrapped_container])
     = [\<lparr>title = ''Search results for 100%'', url = ''https://example.com/search?q=100%'',
         snippet = None\<rparr>]
   \<and> unquote ''https%3A%2F%2Fexample.com%2Fsearch%3Fq%3D100%2525''
       = ''https://example.com/search?q=100%25''"
  by code_simp

text \<open>
  \<open>_ddg_requests_search\<close> takes the value of \<open>parse_qs\<close> as it is. In
  \<open>search_engine.py\<close> the redirect branch raises, and the container yields no item; the
  same container yields one in \<open>simple_ddg_scraper.py\<close>.
\<close>

lemma wrapper_decoded_once_by_ddg_scraper:
  "clean_link (\<lambda>h. True) ''/l/?uddg=https%3A%2F%2Fexample.com%2Fsearch%3Fq%3D100%2525&rut=4f1c''
     = Inr (Some ''https://example.com/search?q=100%25'')"
  by code_simp

lemma wrapper_dropped_by_search_engine:
  "scrape_ddg_html (\<lambda>t. wrapper_div) (\<lambda>i. page_ok) ''example'' 10 = []"
  by code_simp

lemma wrapper_kept_by_simple_scraper:
  "simple_scrape_ddg_html (\<lambda>t. wrapper_div) (\<lambda>h. True) simple_ok ''example'' 10
     = [\<lparr>title = ''Example Domain'', url = ''https://example.com/'', snippet = Some []\<rparr>]"
  by code_simp

section \<open>Failures of the network\<close>

lemma try_endpoint_network_failure:
  "first_get a = Inl e \<Longrightarrow> try_endpoint parse N a = None"
  by (simp add: try_endpoint_def)

lemma scrape_ddg_html_all_fail:
  assumes "\<forall>i \<in> {0, 1, 2}. try_endpoint parse N (net i) = None"
  shows "scrape_ddg_html parse net query N = []"
  using assms by (simp add: scrape_ddg_html_def)

lemma scrape_ddg_html_network_down:
  assumes "\<forall>i. \<exists>e. first_get (net i) = Inl e"
  shows "scrape_ddg_html parse net query N = []"
proof (rule scrape_ddg_html_all_fail)
  show "\<forall>i \<in> {0, 1, 2}. try_endpoint parse N (net i) = None"
    using assms by (metis try_endpoint_network_failure)
qed

text \<open>
  C3. The claim is that the top-level search entry point returns the empty list and
  raises nothing when every endpoint and strategy fails. \<open>scrape_ddg_html\<close> does so (its
  result is a list, empty when every request fails). \<open>ddg_search\<close> does not: its first
  strategy is a call of a function that does not exist, its second strategy raises again
  what \<open>requests.get\<close> raised, and the exception reaches the caller.
\<close>

theorem ddg_search_propagates:
  "ddg_search parse netloc_ok network_down ''python programming'' 10
     = Inl (RequestException ''Connection refused'')"
  by (simp add: ddg_search_def ddg_html_search_def ddg_requests_search_def network_down_def)

section \<open>The scores of the classifier\<close>

lemma positive_score_nonneg: "0 \<le> positive_score text"
proof -
  have "0 \<le> (\<Sum>e \<leftarrow> positive_emojis. if isin e text then 2.0 * real (count_sub e text) else 0)"
    by (rule sum_list_nonneg) auto
  moreover have "0 \<le> (\<Sum>x \<leftarrow> positive_expressions. if isin x (lower text) then (1.5::real) else 0)"
    by (rule sum_list_nonneg) auto
  ultimately show ?thesis by (simp add: positive_score_def)
qed

lemma negative_score_nonneg: "0 \<le> negative_score text"
proof -
  have "0 \<le> (\<Sum>e \<leftarrow> negative_emojis. if isin e text then 2.0 * real (count_sub e text) else 0)"
    by (rule sum_list_nonneg) auto
  moreover have "0 \<le> (\<Sum>x \<leftarrow> negative_expressions. if isin x (lower text) then (1.5::real) else 0)"
    by (rule sum_list_nonneg) auto
  ultimately show ?thesis by (simp add: negative_score_def)
qed

lemma intensity_score_nonneg: "0 \<le> intensity_score text"
proof -
  have "0 \<le> (\<Sum>m \<leftarrow> repeated_chars text @ repeated_words text. 1.0 + real (length m) * 0.1)"
    by (rule sum_list_nonneg) auto
  then show ?thesis by (simp add: intensity_score_def)
qed

lemma calculated_scores:
  "0 \<le> positive_valence (calculate_psychological_scores text)
   \<and> 0 \<le> negative_valence (calculate_psychological_scores text)
   \<and> 0 \<le> neutral_regulation (calculate_psychological_scores text)
   \<and> neutral_regulation (calculate_psychological_scores text) \<le> 1"
proof -
  have "0 \<le> positive_score text + negative_score text + intensity_score text
            + \<bar>engagement_score text\<bar>"
    using positive_score_nonneg [of "text"] negative_score_nonneg [of "text"]
      intensity_score_nonneg [of "text"]
    by linarith
  then show ?thesis
    using positive_score_nonneg [of "text"] negative_score_nonneg [of "text"]
    by (simp add: calculate_psychological_scores_def Let_def)
qed

lemma raise_positive_keeps:
  "positive_valence s \<le> positive_valence (raise_positive p s)
   \<and> negative_valence (raise_positive p s) = negative_valence s
   \<and> neutral_regulation (raise_positive p s) = neutral_regulation s"
  by (cases p) (simp_all add: raise_positive_def)

lemma raise_negative_keeps:
  "positive_valence (raise_negative p s) = positive_valence s
   \<and> negative_valence s \<le> negative_valence (raise_negative p s)
   \<and> neutral_regulation (raise_negative p s) = neutral_regulation s"
  by (cases p) (simp_all add: raise_negative_def)

lemma raise_negative_arousal_keeps:
  "positive_valence (raise_negative_arousal p s) = positive_valence s
   \<and> negative_valence s \<le> negative_valence (raise_negative_arousal p s)
   \<and> neutral_regulation (raise_negative_arousal p s) = neutral_regulation s"
  by (cases p) (simp_all add: raise_negative_arousal_def)

lemma enhance_keeps:
  "positive_valence s \<le> positive_valence (enhance emotions s)
   \<and> negative_valence s \<le> negative_valence (enhance emotions s)
   \<and> neutral_regulation (enhance emotions s) = neutral_regulation s"
proof (cases "emotions = []")
  case True
  then show ?thesis by (simp add: enhance_def)
next
  case False
  let ?s1 = "raise_positive (map_of emotions ''joy'') s"
  let ?s2 = "raise_negative (map_of emotions ''sadness'') ?s1"
  let ?s3 = "raise_negative_arousal (map_of emotions ''anger'') ?s2"
  let ?s4 = "raise_negative_arousal (map_of emotions ''fear'') ?s3"
  have e: "enhance emotions s = ?s4" using False by (simp add: enhance_def)
  have "positive_valence s \<le> positive_valence ?s4"
    using raise_positive_keeps [of s "map_of emotions ''joy''"]
      raise_negative_keeps [of "map_of emotions ''sadness''" ?s1]
      raise_negative_arousal_keeps [of "map_of emotions ''anger''" ?s2]
      raise_negative_arousal_keeps [of "map_of emotions ''fear''" ?s3]
    by linarith
  moreover have "negative_valence s \<le> negative_valence ?s4"
    using raise_positive_keeps [of s "map_of emotions ''joy''"]
      raise_negative_keeps [of "map_of emotions ''sadness''" ?s1]
      raise_negative_arousal_keeps [of "map_of emotions ''anger''" ?s2]
      raise_negative_arousal_keeps [of "map_of emotions ''fear''" ?s3]
    by linarith
  moreover have "neutral_regulation ?s4 = neutral_regulation s"
    using raise_positive_keeps [of s "map_of emotions ''joy''"]
      raise_negative_keeps [of "map_of emotions ''sadness''" ?s1]
      raise_negative_arousal_keeps [of "map_of emotions ''anger''" ?s2]
      raise_negative_arousal_keeps [of "map_of emotions ''fear''" ?s3]
    by simp
  ultimately show ?thesis using e by simp
qed

lemma min_unit:
  fixes x c :: real
  assumes "0 \<le> x" and "0 \<le> c" and "c \<le> 1"
  shows "0 \<le> min c x \<and> min c x \<le> 1"
  using assms by (simp add: min_def)

lemma determine_bounds:
  assumes pv: "0 \<le> positive_valence s" and nv: "0 \<le> negative_valence s"
    and nr0: "0 \<le> neutral_regulation s" and nr1: "neutral_regulation s \<le> 1"
  shows "0 \<le> snd (determine_psychological_state s) \<and> snd (determine_psychological_state s) \<le> 1"
proof -
  have a: "\<And>c. 0 \<le> c \<Longrightarrow> c \<le> 1 \<Longrightarrow>
      0 \<le> min c (0.5 + positive_valence s * 0.1) \<and> min c (0.5 + positive_valence s * 0.1) \<le> 1"
    "\<And>c. 0 \<le> c \<Longrightarrow> c \<le> 1 \<Longrightarrow>
      0 \<le> min c (0.4 + positive_valence s * 0.1) \<and> min c (0.4 + positive_valence s * 0.1) \<le> 1"
    using pv by (simp_all add: min_unit)
  have b: "\<And>c. 0 \<le> c \<Longrightarrow> c \<le> 1 \<Longrightarrow>
      0 \<le> min c (0.5 + negative_valence s * 0.1) \<and> min c (0.5 + negative_valence s * 0.1) \<le> 1"
    "\<And>c. 0 \<le> c \<Longrightarrow> c \<le> 1 \<Longrightarrow>
      0 \<le> min c (0.4 + negative_valence s * 0.1) \<and> min c (0.4 + negative_valence s * 0.1) \<le> 1"
    using nv by (simp_all add: min_unit)
  have c: "1.5 < high_arousal s \<Longrightarrow>
      0 \<le> min 0.9 (0.3 + high_arousal s * 0.08) \<and> min 0.9 (0.3 + high_arousal s * 0.08) \<le> 1"
    by (intro min_unit) simp_all
  have d: "2.0 < high_engagement s \<Longrightarrow>
      0 \<le> min 0.85 (0.4 + high_engagement s * 0.05)
      \<and> min 0.85 (0.4 + high_engagement s * 0.05) \<le> 1"
    by (intro min_unit) simp_all
  have e: "0 \<le> min 0.8 (0.6 + \<bar>high_engagement s\<bar> * 0.2)
      \<and> min 0.8 (0.6 + \<bar>high_engagement s\<bar> * 0.2) \<le> 1"
    "0 \<le> min 0.7 (0.4 + \<bar>high_engagement s\<bar> * 0.15)
      \<and> min 0.7 (0.4 + \<bar>high_engagement s\<bar> * 0.15) \<le> 1"
    by (intro min_unit; simp)+
  have f: "0 \<le> min 0.75 (0.3 + (positive_valence s + negative_valence s) * 0.05)
      \<and> min 0.75 (0.3 + (positive_valence s + negative_valence s) * 0.05) \<le> 1"
    using pv nv by (intro min_unit) simp_all
  have g: "0 \<le> max 0.5 (neutral_regulation s) \<and> max 0.5 (neutral_regulation s) \<le> 1"
    using nr1 by (simp add: max_def)
  consider (positive) "2.0 < positive_valence s"
    | (negative) "\<not> 2.0 < positive_valence s" "2.0 < negative_valence s"
    | (intense) "\<not> 2.0 < positive_valence s" "\<not> 2.0 < negative_valence s"
        "1.5 < high_arousal s"
    | (engaged) "\<not> 2.0 < positive_valence s" "\<not> 2.0 < negative_valence s"
        "\<not> 1.5 < high_arousal s" "2.0 < high_engagement s"
    | (brief) "\<not> 2.0 < positive_valence s" "\<not> 2.0 < negative_valence s"
        "\<not> 1.5 < high_arousal s" "\<not> 2.0 < high_engagement s" "high_engagement s < - 0.3"
    | (neutral) "\<not> 2.0 < positive_valence s" "\<not> 2.0 < negative_valence s"
        "\<not> 1.5 < high_arousal s" "\<not> 2.0 < high_engagement s"
        "\<not> high_engagement s < - 0.3" "0.7 < neutral_regulation s"
    | (rest) "\<not> 2.0 < positive_valence s" "\<not> 2.0 < negative_valence s"
        "\<not> 1.5 < high_arousal s" "\<not> 2.0 < high_engagement s"
        "\<not> high_engagement s < - 0.3" "\<not> 0.7 < neutral_regulation s"
    by blast
  then show ?thesis
  proof cases
    case positive
    then show ?thesis
      using a [of "0.95"] a [of "0.9"] by (simp add: determine_psychological_state_def)
  next
    case negative
    then show ?thesis
      using b [of "0.95"] b [of "0.9"] by (simp add: determine_psychological_state_def)
  next
    case intense
    then show ?thesis
      using c by (simp add: determine_psychological_state_def)
  next
    case engaged
    then show ?thesis
      using d by (simp add: determine_psychological_state_def)
  next
    case brief
    then show ?thesis
      using e by (simp add: determine_psychological_state_def)
  next
    case neutral
    then show ?thesis
      using nr0 nr1 by (simp add: determine_psychological_state_def)
  next
    case rest
    then show ?thesis
      using f g by (simp add: determine_psychological_state_def)
  qed
qed

lemma clamp_bounds: "- 1 \<le> clamp x \<and> clamp x \<le> 1"
  by (simp add: clamp_def)

section \<open>The result of \<open>classify_query\<close>\<close>

lemma load_model_true: "fst (load_model ld st)"
  by (simp add: load_model_def split: sum.splits option.splits)

lemma classify_query_eq:
  "classify_query ld st v =
     (case analyse (after_load ld st) v of
        Inr r \<Rightarrow> (Inr r, after_load ld st)
      | Inl e \<Rightarrow> (Inr (neutral_fallback e), after_load ld st))"
proof (cases "model_loaded st")
  case True
  then have "after_load ld st = st" by (simp add: after_load_def)
  then show ?thesis using True by (simp add: classify_query_def split: sum.splits)
next
  case False
  obtain loaded st1 where l: "load_model ld st = (loaded, st1)" by (cases "load_model ld st")
  have "loaded" using load_model_true [of ld st] l by simp
  moreover have "after_load ld st = st1" using False l by (simp add: after_load_def)
  ultimately show ?thesis using False l by (simp add: classify_query_def split: sum.splits)
qed

lemma make_profile_in_range:
  assumes "psychological_profile r = make_profile s"
  shows "in_unit r ''valence'' \<and> in_unit r ''arousal'' \<and> in_unit r ''engagement''
       \<and> in_unit r ''regulation''"
  using assms clamp_bounds by (simp add: in_unit_def make_profile_def)

lemma analyse_in_range:
  assumes "analyse st v = Inr r"
  shows "0 \<le> confidence r \<and> confidence r \<le> 1
       \<and> in_unit r ''valence'' \<and> in_unit r ''arousal'' \<and> in_unit r ''engagement''
       \<and> in_unit r ''regulation''"
proof -
  obtain t where v: "v = Str t" using assms by (cases v) (simp_all add: analyse_def)
  let ?s = "enhance (get_distilbert_emotions st t) (calculate_psychological_scores t)"
  have r: "confidence r = snd (determine_psychological_state ?s)"
    "psychological_profile r = make_profile ?s"
    using assms v by (auto simp: analyse_def Let_def split: prod.splits)
  have "0 \<le> positive_valence ?s" "0 \<le> negative_valence ?s"
    "0 \<le> neutral_regulation ?s" "neutral_regulation ?s \<le> 1"
    using calculated_scores [of t]
      enhance_keeps [of "calculate_psychological_scores t" "get_distilbert_emotions st t"]
    by simp_all
  then have "0 \<le> snd (determine_psychological_state ?s)
      \<and> snd (determine_psychological_state ?s) \<le> 1"
    by (rule determine_bounds)
  then show ?thesis using r make_profile_in_range [OF r(2)] by simp
qed

lemma fallback_in_range:
  "confidence (neutral_fallback e) = 1
   \<and> in_unit (neutral_fallback e) ''valence'' \<and> in_unit (neutral_fallback e) ''arousal''
   \<and> in_unit (neutral_fallback e) ''engagement'' \<and> in_unit (neutral_fallback e) ''regulation''"
  by (simp add: neutral_fallback_def in_unit_def)

lemma classify_yay:
  "fst (classify_query no_loader no_model (Str ''yay!!!''))
     = Inr \<lparr>primary_state = ''high_positive_arousal'', confidence = 19 / 20, tool = ''music'',
            psychological_profile =
              [(''valence'', 1 / 5), (''arousal'', 2 / 5), (''engagement'', - (1 / 20)),
               (''regulation'', 43 / 100)],
            psychological_insights =
              [''Brief but positive message - efficient communication style'',
               ''Mixed emotional signals detected - possible internal conflict or complex emotional state''],
            error = None\<rparr>"
  by code_simp

lemma classify_none:
  "fst (classify_query no_loader no_model (Other ''NoneType''))
     = Inr (neutral_fallback (no_split ''NoneType''))"
  by (simp add: classify_query_eq analyse_def)

text \<open>
  C9. Whatever the argument, the state of the module and the model, \<open>classify_query\<close>
  returns a record whose confidence is between 0 and 1 and whose profile has the components
  valence, arousal, engagement and regulation, each between -1 and 1.
\<close>

theorem classification_in_range:
  "case fst (classify_query ld st v) of
     Inl e \<Rightarrow> False
   | Inr r \<Rightarrow> 0 \<le> confidence r \<and> confidence r \<le> 1
             \<and> in_unit r ''valence'' \<and> in_unit r ''arousal'' \<and> in_unit r ''engagement''
             \<and> in_unit r ''regulation''"
proof (cases "analyse (after_load ld st) v")
  case (Inl e)
  then show ?thesis
    using fallback_in_range [of e] by (simp add: classify_query_eq)
next
  case (Inr r)
  then show ?thesis
    using analyse_in_range [OF Inr] by (simp add: classify_query_eq)
qed

theorem classification_in_range_witness:
  "\<exists>r. fst (classify_query no_loader no_model (Str ''yay!!!'')) = Inr r
        \<and> confidence r = 19 / 20 \<and> 0 \<le> confidence r \<and> confidence r \<le> 1
        \<and> map_of (psychological_profile r) ''valence'' = Some (1 / 5)
        \<and> in_unit r ''valence'' \<and> in_unit r ''arousal'' \<and> in_unit r ''engagement''
        \<and> in_unit r ''regulation''"
  using classification_in_range [of no_loader no_model "Str ''yay!!!''"]
  by (simp add: classify_yay)



end
